theory Spec2Isabelle
  imports Complex_Main "HOL-Library.Log_Nat"
begin

section \<open>JavaScript numbers\<close>

text \<open>
  A price is a JavaScript Number: an IEEE 754 double. The car's rate is stored by
  \<open>parseFloat\<close>, so it may have a fraction (10.1), and every product and sum of the price
  computation is rounded to the nearest double, ties to the even mantissa. A finite
  double is modelled by the rational it denotes, next to the two infinities and NaN; the
  two zeros are one value (the sign of a zero never shows in a price).
\<close>

datatype number = Num rat | PosInfinity | NegInfinity | NaN

text \<open>The nearest integer, a tie going to the even one.\<close>

definition roundHalfEven :: "rat \<Rightarrow> int" where
  "roundHalfEven q =
     (let n = \<lfloor>q\<rfloor>; f = q - of_int n
      in if f < 1 / 2 then n else if 1 / 2 < f then n + 1 else if even n then n else n + 1)"

text \<open>The binary exponent of a positive rational: \<open>2 powi expo x \<le> x < 2 powi (expo x + 1)\<close>.\<close>

definition expo :: "rat \<Rightarrow> int" where
  "expo x = (if 1 \<le> x then bitlen \<lfloor>x\<rfloor> - 1 else - bitlen (\<lceil>1 / x\<rceil> - 1))"

text \<open>
  Rounding an exact result to a double: 53 bits of mantissa, so the spacing at exponent
  \<open>e\<close> is \<open>2 powi (e - 52)\<close>; below the smallest normal exponent \<open>-1022\<close> the spacing stays
  \<open>2 powi (-1074)\<close> (subnormal numbers); a result that rounds to \<open>2 powi 1024\<close> or more
  overflows to an infinity.
\<close>

definition roundDouble :: "rat \<Rightarrow> number" where
  "roundDouble x =
     (if x = 0 then Num 0
      else let ulp = 2 powi (max (expo \<bar>x\<bar>) (- 1022) - 52);
               r = of_int (roundHalfEven (\<bar>x\<bar> / ulp)) * ulp
           in if 2 powi 1024 \<le> r then (if 0 < x then PosInfinity else NegInfinity)
              else Num (if 0 < x then r else - r))"

text \<open>The operator \<open>*\<close> on Numbers.\<close>

fun js_times :: "number \<Rightarrow> number \<Rightarrow> number" where
  "js_times (Num a) (Num b) = roundDouble (a * b)"
| "js_times NaN _ = NaN"
| "js_times _ NaN = NaN"
| "js_times (Num a) PosInfinity =
     (if a = 0 then NaN else if 0 < a then PosInfinity else NegInfinity)"
| "js_times (Num a) NegInfinity =
     (if a = 0 then NaN else if 0 < a then NegInfinity else PosInfinity)"
| "js_times PosInfinity (Num b) =
     (if b = 0 then NaN else if 0 < b then PosInfinity else NegInfinity)"
| "js_times NegInfinity (Num b) =
     (if b = 0 then NaN else if 0 < b then NegInfinity else PosInfinity)"
| "js_times PosInfinity PosInfinity = PosInfinity"
| "js_times PosInfinity NegInfinity = NegInfinity"
| "js_times NegInfinity PosInfinity = NegInfinity"
| "js_times NegInfinity NegInfinity = PosInfinity"

text \<open>The operator \<open>+\<close> on Numbers.\<close>

fun js_plus :: "number \<Rightarrow> number \<Rightarrow> number" where
  "js_plus (Num a) (Num b) = roundDouble (a + b)"
| "js_plus NaN _ = NaN"
| "js_plus _ NaN = NaN"
| "js_plus PosInfinity NegInfinity = NaN"
| "js_plus NegInfinity PosInfinity = NaN"
| "js_plus PosInfinity _ = PosInfinity"
| "js_plus _ PosInfinity = PosInfinity"
| "js_plus NegInfinity _ = NegInfinity"
| "js_plus _ NegInfinity = NegInfinity"

text \<open>
  A day count as a Number. The count is a whole number far below \<open>2 ^ 53\<close> for any two
  dates JavaScript can represent, so the conversion is exact there.
\<close>

definition toNumber :: "int \<Rightarrow> number" where
  "toNumber k = roundDouble (of_int k)"

section \<open>Data model (models/Car.js, models/Booking.js)\<close>

text \<open>
  The two Mongoose collections the booking controller works on. Only the fields the
  controller reads or writes are kept. Prices are Numbers as above. Timestamps are
  integers, the milliseconds since the epoch of \<open>Date.getTime()\<close>; the unit counter and
  the day count are integers as well (they are whole numbers in the source: the counter
  is stored by \<open>parseInt\<close>, the day count is a \<open>Math.ceil\<close>), and the day count is computed
  exactly, as the double computation does for any window shorter than \<open>2 ^ 53\<close>
  milliseconds. Document ids are natural numbers.
\<close>

datatype bookingStatus = pending | confirmed | cancelled | completed

record Car =
  pricePerDay :: number
  totalCarsAvailable :: int
  isAvailable :: bool

text \<open>
  A String path of a document is \<open>string option\<close>, \<open>None\<close> for \<open>undefined\<close>.
  \<open>bookingId\<close> is the document's \<open>_id\<close>; \<open>user\<close> and \<open>car\<close> are the referenced ids.
\<close>

record Booking =
  bookingId :: nat
  user :: nat
  car :: nat
  pickupLocation :: "string option"
  pickupDate :: int
  pickupTime :: "string option"
  dropoffDate :: int
  dropoffTime :: "string option"
  totalDays :: int
  pricePerDay :: number
  totalPrice :: number
  bookingStatus :: bookingStatus
  specialRequests :: "string option"
  additionalDriver :: bool
  insuranceSelected :: bool
  cancellationReason :: "string option"

text \<open>
  The database: cars by id, the ids of the user documents that still exist (a booking
  keeps the id of a deleted user), and the bookings collection in insertion order.
\<close>

record store =
  cars :: "nat \<Rightarrow> Car option"
  users :: "nat set"
  bookings :: "Booking list"

datatype role = user_role | admin_role

text \<open>\<open>req.user\<close>: the authenticated caller.\<close>

record actor =
  actor_id :: nat
  actor_role :: role

text \<open>
  Every \<open>AppError\<close> of the controller, named after the failure it reports; the comment
  gives the message and HTTP status of the source. \<open>ValidationError\<close> is Mongoose's
  schema validation failing inside \<open>Booking.create\<close>; \<open>TypeError\<close> is a property read
  on \<open>null\<close>, which \<open>asyncHandler\<close> forwards as an internal error.
\<close>

datatype error =
    MissingInformation   \<comment> \<open>"Missing required booking information", 400\<close>
  | InvalidWindow        \<comment> \<open>"Drop-off must be after pick-up", 400\<close>
  | ResourceNotFound     \<comment> \<open>"Car not found", 404\<close>
  | ResourceUnavailable  \<comment> \<open>"Car is not available for booking", 400\<close>
  | SlotConflict         \<comment> \<open>"Car is already booked for the selected dates", 400\<close>
  | InvalidDuration      \<comment> \<open>"Minimum booking is 1 day", 400\<close>
  | ValidationError
  | NotFound             \<comment> \<open>"Booking not found", 404\<close>
  | ReasonRequired       \<comment> \<open>"Please Provide Cancellation Reason", 400\<close>
  | Forbidden            \<comment> \<open>"You are not authorized to cancel this booking", 403\<close>
  | AlreadyCancelled     \<comment> \<open>"Booking is already cancelled", 400\<close>
  | TerminalCompleted    \<comment> \<open>"Cannot cancel completed booking", 400\<close>
  | StatusRequired       \<comment> \<open>"Please provide booking status", 400\<close>
  | InvalidStatus        \<comment> \<open>"Invalid booking status", 400\<close>
  | FullyBooked          \<comment> \<open>"Car is no longer available", 400\<close>
  | TypeError

section \<open>Request bodies\<close>

text \<open>
  \<open>req.body\<close> of \<open>POST /api/v1/bookings\<close>. \<open>parseDateTime\<close> combines a date string and a
  time string with the JavaScript \<open>Date\<close> library in the server's time zone; that library
  is outside the model, so \<open>body_pickupDate\<close> and \<open>body_dropoffDate\<close> carry what it returns
  for the date and its time (\<open>"10:00 AM"\<close> when the time is omitted), in milliseconds,
  and \<open>None\<close> when the date field is missing. The time strings themselves are kept
  because they are stored. The two add-on flags are \<open>None\<close> when omitted.
\<close>

record createBody =
  body_carId :: "nat option"
  body_pickupLocation :: "string option"
  body_pickupDate :: "int option"
  body_pickupTime :: "string option"
  body_dropoffDate :: "int option"
  body_dropoffTime :: "string option"
  body_specialRequests :: "string option"
  body_additionalDriver :: "bool option"
  body_insuranceSelected :: "bool option"

text \<open>\<open>req.body\<close> of \<open>PATCH /api/v1/bookings/:id\<close>.\<close>

record updateBody =
  body_status :: "string option"
  body_cancellationReason :: "string option"

section \<open>JavaScript helpers\<close>

text \<open>\<open>!s\<close> for a string that may be undefined: true for \<open>undefined\<close> and for \<open>""\<close>.\<close>

definition falsy :: "string option \<Rightarrow> bool" where
  "falsy s = (case s of None \<Rightarrow> True | Some t \<Rightarrow> t = [])"

text \<open>Truthiness of a flag that may be undefined.\<close>

definition truthy :: "bool option \<Rightarrow> bool" where
  "truthy f = (case f of None \<Rightarrow> False | Some b \<Rightarrow> b)"

definition oneDay :: int where
  "oneDay = 24 * 60 * 60 * 1000"

text \<open>\<open>Math.ceil(ms / oneDay)\<close> on integers.\<close>

definition ceilDays :: "int \<Rightarrow> int" where
  "ceilDays ms = - ((- ms) div oneDay)"

section \<open>Booking model: the save hook, create, save, findById\<close>

text \<open>\<open>BookingSchema.pre('save')\<close>: recomputes the day count and the price from the stored fields.\<close>

definition pre_save :: "Booking \<Rightarrow> Booking" where
  "pre_save this =
     (let diffDays = ceilDays \<bar>dropoffDate this - pickupDate this\<bar>;
          this1 = this\<lparr>totalDays := diffDays,
                       totalPrice := js_times (Booking.pricePerDay this) (toNumber diffDays)\<rparr>;
          this2 = (if insuranceSelected this1
                   then this1\<lparr>totalPrice := js_plus (totalPrice this1)
                                                 (js_times (Num 15) (toNumber diffDays))\<rparr>
                   else this1);
          this3 = (if additionalDriver this2
                   then this2\<lparr>totalPrice := js_plus (totalPrice this2)
                                                 (js_times (Num 10) (toNumber diffDays))\<rparr>
                   else this2)
      in this3)"

text \<open>
  The schema's validators that a new booking document can fail: the required strings,
  \<open>totalDays\<close> at least 1, \<open>specialRequests\<close> of at most 500 characters.
\<close>

definition schema_valid :: "Booking \<Rightarrow> bool" where
  "schema_valid b =
     (\<not> falsy (pickupLocation b) \<and> \<not> falsy (pickupTime b) \<and> \<not> falsy (dropoffTime b)
      \<and> 1 \<le> totalDays b
      \<and> (case specialRequests b of None \<Rightarrow> True | Some s \<Rightarrow> length s \<le> 500))"

text \<open>The id the database gives a new document: one not in the collection.\<close>

definition newId :: "Booking list \<Rightarrow> nat" where
  "newId bs = Suc (foldr max (map bookingId bs) 0)"

text \<open>\<open>Booking.create\<close>: validate, run the save hook, insert.\<close>

definition Booking_create :: "store \<Rightarrow> Booking \<Rightarrow> error + (Booking \<times> store)" where
  "Booking_create st doc =
     (if schema_valid doc
      then (let b = pre_save (doc\<lparr>bookingId := newId (bookings st)\<rparr>)
            in Inr (b, st\<lparr>bookings := bookings st @ [b]\<rparr>))
      else Inl ValidationError)"

text \<open>
  \<open>booking.save()\<close> on a loaded document: run the save hook, replace the stored document.
  The controller only changes \<open>bookingStatus\<close> (to a value of the enum) and
  \<open>cancellationReason\<close> before saving, so no validator can fail here.
\<close>

definition Booking_save :: "store \<Rightarrow> Booking \<Rightarrow> store" where
  "Booking_save st b =
     st\<lparr>bookings := map (\<lambda>x. if bookingId x = bookingId b then pre_save b else x) (bookings st)\<rparr>"

definition findById :: "store \<Rightarrow> nat \<Rightarrow> Booking option" where
  "findById st i = find (\<lambda>b. bookingId b = i) (bookings st)"

text \<open>
  The query of \<open>createBooking\<close>: a booking of the car in status confirmed or pending with
  \<open>pickupDate < dropoffDateTime\<close> and \<open>dropoffDate > pickupDateTime\<close>.
\<close>

definition blocks :: "nat \<Rightarrow> int \<Rightarrow> int \<Rightarrow> Booking \<Rightarrow> bool" where
  "blocks carId pickupDateTime dropoffDateTime b =
     (car b = carId \<and> (bookingStatus b = confirmed \<or> bookingStatus b = pending)
      \<and> pickupDate b < dropoffDateTime \<and> dropoffDate b > pickupDateTime)"

definition existingBooking :: "store \<Rightarrow> nat \<Rightarrow> int \<Rightarrow> int \<Rightarrow> Booking option" where
  "existingBooking st carId pickupDateTime dropoffDateTime =
     find (blocks carId pickupDateTime dropoffDateTime) (bookings st)"

section \<open>controllers/bookings.js\<close>

text \<open>The price the controller computes before \<open>Booking.create\<close>.\<close>

definition controllerPrice :: "number \<Rightarrow> int \<Rightarrow> bool option \<Rightarrow> bool option \<Rightarrow> number" where
  "controllerPrice carPrice days insurance driver =
     (let totalPrice = js_times carPrice (toNumber days);
          totalPrice1 = (if truthy insurance
                         then js_plus totalPrice (js_times (Num 15) (toNumber days))
                         else totalPrice);
          totalPrice2 = (if truthy driver
                         then js_plus totalPrice1 (js_times (Num 10) (toNumber days))
                         else totalPrice1)
      in totalPrice2)"

text \<open>The car update at the end of \<open>createBooking\<close>.\<close>

definition reserveOnCreate :: "Car \<Rightarrow> Car" where
  "reserveOnCreate c =
     (let c1 = (if totalCarsAvailable c = 1 then c\<lparr>isAvailable := False\<rparr> else c)
      in c1\<lparr>totalCarsAvailable := max 0 (totalCarsAvailable c1 - 1)\<rparr>)"

text \<open>
  The object the controller hands to \<open>Booking.create\<close>; the database assigns the id.
  The stored \<open>insuranceSelected\<close> is \<open>insuranceSelected !== false\<close>, the stored
  \<open>additionalDriver\<close> is \<open>additionalDriver || false\<close>.
\<close>

definition bookingDoc :: "actor \<Rightarrow> createBody \<Rightarrow> nat \<Rightarrow> int \<Rightarrow> int \<Rightarrow> Car \<Rightarrow> int \<Rightarrow> Booking" where
  "bookingDoc usr body carId pickupDateTime dropoffDateTime c days =
     \<lparr>bookingId = 0, user = actor_id usr, car = carId,
      pickupLocation = body_pickupLocation body,
      pickupDate = pickupDateTime, pickupTime = body_pickupTime body,
      dropoffDate = dropoffDateTime, dropoffTime = body_dropoffTime body,
      totalDays = days, pricePerDay = Car.pricePerDay c,
      totalPrice = controllerPrice (Car.pricePerDay c) days
                     (body_insuranceSelected body) (body_additionalDriver body),
      bookingStatus = confirmed,
      specialRequests = body_specialRequests body,
      additionalDriver = truthy (body_additionalDriver body),
      insuranceSelected = (body_insuranceSelected body \<noteq> Some False),
      cancellationReason = None\<rparr>"

text \<open>
  \<open>createBooking\<close>. The result pairs the response (an error, or the created booking) with
  the database afterwards.
\<close>

definition createBooking :: "store \<Rightarrow> actor \<Rightarrow> createBody \<Rightarrow> (error + Booking) \<times> store" where
  "createBooking st usr body =
     (case (body_carId body, body_pickupDate body, body_dropoffDate body) of
        (Some carId, Some pickupDateTime, Some dropoffDateTime) \<Rightarrow>
          if falsy (body_pickupLocation body) then (Inl MissingInformation, st)
          else if dropoffDateTime \<le> pickupDateTime then (Inl InvalidWindow, st)
          else (case cars st carId of
              None \<Rightarrow> (Inl ResourceNotFound, st)
            | Some c \<Rightarrow>
                if \<not> isAvailable c then (Inl ResourceUnavailable, st)
                else if existingBooking st carId pickupDateTime dropoffDateTime \<noteq> None
                then (Inl SlotConflict, st)
                else (let days = ceilDays (dropoffDateTime - pickupDateTime) in
                  if days < 1 then (Inl InvalidDuration, st)
                  else (case Booking_create st
                               (bookingDoc usr body carId pickupDateTime dropoffDateTime c days) of
                      Inl e \<Rightarrow> (Inl e, st)
                    | Inr (booking, st1) \<Rightarrow>
                        (Inr booking, st1\<lparr>cars := (cars st1)(carId \<mapsto> reserveOnCreate c)\<rparr>))))
      | _ \<Rightarrow> (Inl MissingInformation, st))"

text \<open>The car update of a cancellation (in \<open>cancelBooking\<close> and in \<open>updateBooking\<close>).\<close>

definition releaseUnit :: "Car \<Rightarrow> Car" where
  "releaseUnit c =
     (let c1 = c\<lparr>totalCarsAvailable := totalCarsAvailable c + 1\<rparr>
      in if \<not> isAvailable c1 \<and> totalCarsAvailable c1 > 0 then c1\<lparr>isAvailable := True\<rparr> else c1)"

text \<open>
  \<open>cancelBooking\<close>. The booking is saved before the car is looked up, so a booking whose
  car is gone ends cancelled and the request fails on \<open>car.totalCarsAvailable\<close>. Reading
  \<open>booking.user._id\<close> fails when the requester's document no longer exists.
\<close>

definition cancelBooking :: "store \<Rightarrow> actor \<Rightarrow> nat \<Rightarrow> string option \<Rightarrow> (error + Booking) \<times> store" where
  "cancelBooking st usr i reason =
     (case findById st i of
        None \<Rightarrow> (Inl NotFound, st)
      | Some booking \<Rightarrow>
          if falsy reason then (Inl ReasonRequired, st)
          else if user booking \<notin> users st then (Inl TypeError, st)
          else if user booking \<noteq> actor_id usr \<and> actor_role usr \<noteq> admin_role
          then (Inl Forbidden, st)
          else if bookingStatus booking = cancelled then (Inl AlreadyCancelled, st)
          else if bookingStatus booking = completed then (Inl TerminalCompleted, st)
          else (let booking1 = booking\<lparr>bookingStatus := cancelled, cancellationReason := reason\<rparr>;
                    st1 = Booking_save st booking1
                in case cars st1 (car booking1) of
                     None \<Rightarrow> (Inl TypeError, st1)
                   | Some c \<Rightarrow>
                       (Inr (pre_save booking1),
                        st1\<lparr>cars := (cars st1)(car booking1 \<mapsto> releaseUnit c)\<rparr>)))"

text \<open>\<open>validStatuses.includes(status)\<close>, returning the status the string names.\<close>

definition validStatus :: "string \<Rightarrow> bookingStatus option" where
  "validStatus s =
     (if s = ''pending'' then Some pending
      else if s = ''confirmed'' then Some confirmed
      else if s = ''cancelled'' then Some cancelled
      else if s = ''completed'' then Some completed
      else None)"

text \<open>The car update when a cancelled booking is confirmed again.\<close>

definition reserveUnit :: "Car \<Rightarrow> Car" where
  "reserveUnit c =
     (let c1 = c\<lparr>totalCarsAvailable := totalCarsAvailable c - 1\<rparr>
      in if totalCarsAvailable c1 = 0 then c1\<lparr>isAvailable := False\<rparr> else c1)"

text \<open>
  \<open>updateBooking\<close> (admin route). The controller never reads \<open>req.user\<close>; the parameter is
  kept to make that visible. The early return of the re-confirm branch happens before
  \<open>booking.save()\<close>, so nothing is written on that path.
\<close>

definition updateBooking :: "store \<Rightarrow> actor \<Rightarrow> nat \<Rightarrow> updateBody \<Rightarrow> (error + Booking) \<times> store" where
  "updateBooking st usr i body =
     (if falsy (body_status body) then (Inl StatusRequired, st)
      else case validStatus (case body_status body of None \<Rightarrow> [] | Some s \<Rightarrow> s) of
        None \<Rightarrow> (Inl InvalidStatus, st)
      | Some status \<Rightarrow>
         (case findById st i of
            None \<Rightarrow> (Inl NotFound, st)
          | Some booking0 \<Rightarrow>
             (let oldStatus = bookingStatus booking0;
                  booking = booking0\<lparr>bookingStatus := status\<rparr>;
                  booking1 = (if status = cancelled \<and> oldStatus \<noteq> cancelled
                     then booking\<lparr>cancellationReason :=
                            (if falsy (body_cancellationReason body) then Some ''Cancelled by admin''
                             else body_cancellationReason body)\<rparr>
                     else booking);
                  st1 = (if status = cancelled \<and> oldStatus \<noteq> cancelled
                     then (case cars st (car booking) of
                             None \<Rightarrow> st
                           | Some c \<Rightarrow> st\<lparr>cars := (cars st)(car booking \<mapsto> releaseUnit c)\<rparr>)
                     else st)
              in if status = confirmed \<and> oldStatus = cancelled
                 then (case cars st1 (car booking1) of
                         None \<Rightarrow> (Inr (pre_save booking1), Booking_save st1 booking1)
                       | Some c \<Rightarrow>
                           if totalCarsAvailable c \<le> 0 then (Inl FullyBooked, st1)
                           else (Inr (pre_save booking1),
                                 Booking_save (st1\<lparr>cars := (cars st1)(car booking1 \<mapsto> reserveUnit c)\<rparr>)
                                   booking1))
                 else (Inr (pre_save booking1), Booking_save st1 booking1))))"

section \<open>The stored availability flag\<close>

text \<open>A car is consistent when its flag says what its counter says.\<close>

definition car_consistent :: "Car \<Rightarrow> bool" where
  "car_consistent c = (isAvailable c = (totalCarsAvailable c > 0))"

section \<open>A one-car database for the worked scenarios\<close>

text \<open>
  Car 1 at 50 per day with a given counter and flag, the users 7 and 8, and a given
  bookings collection; booking 1 is user 7's booking of car 1 from day 1 to day 3
  (two days, no add-ons, price 100) in a given status.
\<close>

definition exCar :: "int \<Rightarrow> bool \<Rightarrow> Car" where
  "exCar n flag = \<lparr>Car.pricePerDay = Num 50, totalCarsAvailable = n, isAvailable = flag\<rparr>"

definition exStore :: "int \<Rightarrow> bool \<Rightarrow> Booking list \<Rightarrow> store" where
  "exStore n flag bs = \<lparr>cars = [1 \<mapsto> exCar n flag], users = {7, 8}, bookings = bs\<rparr>"

definition exBooking :: "bookingStatus \<Rightarrow> string option \<Rightarrow> Booking" where
  "exBooking s r =
     \<lparr>bookingId = 1, user = 7, car = 1, pickupLocation = Some ''Airport'',
      pickupDate = 1 * 86400000, pickupTime = Some ''10:00 AM'',
      dropoffDate = 3 * 86400000, dropoffTime = Some ''10:00 AM'',
      totalDays = 2, pricePerDay = Num 50, totalPrice = Num 100, bookingStatus = s,
      specialRequests = None, additionalDriver = False, insuranceSelected = False,
      cancellationReason = r\<rparr>"

text \<open>
  Booking 1 as it is stored when insurance is charged: for days 1 to 4 (three days, 195),
  and for days 1 to 3 (two days, 130).
\<close>

definition exInsured3 :: Booking where
  "exInsured3 = exBooking confirmed None
     \<lparr>dropoffDate := 4 * 86400000, totalDays := 3, totalPrice := Num 195,
       insuranceSelected := True\<rparr>"

definition exInsured2 :: Booking where
  "exInsured2 = exBooking confirmed None\<lparr>totalPrice := Num 130, insuranceSelected := True\<rparr>"

text \<open>
  A fractional rate: the double nearest to 10.1, a one-car database at that rate, and
  booking 1 as it is stored there for days 1 to 4 without add-ons: three days at 10.1
  make 30.299999999999997, the double below 30.3.
\<close>

definition tenPointOne :: rat where
  "tenPointOne = 5685794529555251 / 562949953421312"

definition exFractionalStore :: "Booking list \<Rightarrow> store" where
  "exFractionalStore bs =
     \<lparr>cars = [1 \<mapsto> \<lparr>Car.pricePerDay = Num tenPointOne, totalCarsAvailable = 1,
                      isAvailable = True\<rparr>],
      users = {7, 8}, bookings = bs\<rparr>"

definition exFractional :: Booking where
  "exFractional = exBooking confirmed None
     \<lparr>dropoffDate := 4 * 86400000, totalDays := 3, pricePerDay := Num tenPointOne,
       totalPrice := Num (2132172948583219 / 70368744177664)\<rparr>"

text \<open>Booking 2: user 8's confirmed booking of car 1 from day 2 to day 4.\<close>

definition exBooking2 :: Booking where
  "exBooking2 = exBooking confirmed None
     \<lparr>bookingId := 2, user := 8, pickupDate := 2 * 86400000, dropoffDate := 4 * 86400000\<rparr>"

text \<open>A create request for car 1 from day \<open>p\<close> to day \<open>d\<close> with the insurance flag as given.\<close>

definition exRequest :: "int \<Rightarrow> int \<Rightarrow> bool option \<Rightarrow> createBody" where
  "exRequest p d ins =
     \<lparr>body_carId = Some 1, body_pickupLocation = Some ''Airport'',
      body_pickupDate = Some (p * 86400000), body_pickupTime = Some ''10:00 AM'',
      body_dropoffDate = Some (d * 86400000), body_dropoffTime = Some ''10:00 AM'',
      body_specialRequests = None, body_additionalDriver = None,
      body_insuranceSelected = ins\<rparr>"

definition exSetStatus :: "string \<Rightarrow> updateBody" where
  "exSetStatus s = \<lparr>body_status = Some s, body_cancellationReason = None\<rparr>"

definition alice :: actor where
  "alice = \<lparr>actor_id = 7, actor_role = user_role\<rparr>"

definition bob :: actor where
  "bob = \<lparr>actor_id = 8, actor_role = user_role\<rparr>"

definition admin :: actor where
  "admin = \<lparr>actor_id = 9, actor_role = admin_role\<rparr>"

section \<open>Properties of the building blocks\<close>

text \<open>Rounding: the exponent is the right one, and whole numbers below \<open>2 ^ 53\<close> are doubles.\<close>

lemma roundHalfEven_of_int: "roundHalfEven (of_int j) = j"
  by (simp add: roundHalfEven_def)

lemma expo_of_int: "0 < k \<Longrightarrow> expo (of_int k) = bitlen k - 1"
  by (simp add: expo_def)

lemma bitlen_pos: "0 < k \<Longrightarrow> 1 \<le> bitlen k"
  using bitlen_eq_zero_iff [of k] bitlen_nonneg [of k] by linarith

lemma expo_bounds:
  assumes "0 < x"
  shows "2 powi (expo x) \<le> x \<and> x < 2 powi (expo x + 1)"
proof (cases "1 \<le> x")
  case True
  define n where "n = \<lfloor>x\<rfloor>"
  have n1: "0 < n" using True by (simp add: n_def)
  define e where "e = bitlen n - 1"
  have e0: "0 \<le> e" using bitlen_pos [OF n1] by (simp add: e_def)
  have ex: "expo x = e" using True by (simp add: expo_def e_def n_def)
  from bitlen_bounds [OF n1] have lo: "2 ^ nat e \<le> n" and hi: "n < 2 ^ nat (e + 1)"
    by (simp_all add: e_def)
  have "rat_of_int (2 ^ nat e) \<le> of_int n" using lo by (simp only: of_int_le_iff)
  also have "\<dots> \<le> x" by (simp add: n_def)
  finally have l: "2 powi e \<le> x" using e0 by (simp add: power_int_def)
  have "n + 1 \<le> 2 ^ nat (e + 1)" using hi by simp
  then have "rat_of_int (n + 1) \<le> of_int (2 ^ nat (e + 1))" by (simp only: of_int_le_iff)
  moreover have "x < of_int (n + 1)" using floor_correct [of x] by (simp add: n_def)
  ultimately have "x < of_int (2 ^ nat (e + 1))" by linarith
  then have h: "x < 2 powi (e + 1)" using e0 by (simp add: power_int_def)
  from l h ex show ?thesis by simp
next
  case False
  define y where "y = 1 / x"
  have y1: "1 < y" using False assms by (simp add: y_def)
  define m where "m = \<lceil>y\<rceil> - 1"
  have m1: "0 < m" using y1 by (simp add: m_def)
  define b where "b = bitlen m"
  have b1: "1 \<le> b" using bitlen_pos [OF m1] by (simp add: b_def)
  have ex: "expo x = - b" using False by (simp add: expo_def b_def m_def y_def)
  from bitlen_bounds [OF m1] have lo: "2 ^ nat (b - 1) \<le> m" and hi: "m < 2 ^ nat b"
    by (simp_all add: b_def)
  have my: "of_int m < y" by (simp add: m_def) linarith
  have ym: "y \<le> of_int (m + 1)" by (simp add: m_def)
  have "rat_of_int (2 ^ nat (b - 1)) \<le> of_int m" using lo by (simp only: of_int_le_iff)
  then have "(2::rat) ^ nat (b - 1) \<le> of_int m" by simp
  with my have ylo: "2 ^ nat (b - 1) < y" by linarith
  have "m + 1 \<le> 2 ^ nat b" using hi by simp
  then have "rat_of_int (m + 1) \<le> of_int (2 ^ nat b)" by (simp only: of_int_le_iff)
  then have "rat_of_int (m + 1) \<le> 2 ^ nat b" by simp
  with ym have yhi: "y \<le> 2 ^ nat b" by linarith
  have x: "x = 1 / y" using assms by (simp add: y_def)
  have p1: "(2::rat) powi (- b) = 1 / 2 ^ nat b" using b1
    by (simp add: power_int_def field_simps)
  have p2: "(2::rat) powi (- b + 1) = 1 / 2 ^ nat (b - 1)" using b1
    by (simp add: power_int_def field_simps)
  have l: "2 powi (- b) \<le> x" unfolding p1 x using yhi y1
    by (simp add: field_simps)
  have h: "x < 2 powi (- b + 1)" unfolding p2 x using ylo y1
    by (simp add: field_simps)
  from l h ex show ?thesis by simp
qed

lemma roundDouble_of_int_pos:
  assumes "0 < k" and "k < 2 ^ 53"
  shows "roundDouble (of_int k) = Num (of_int k)"
proof -
  define e where "e = bitlen k - 1"
  have b: "2 ^ nat e \<le> k" using bitlen_bounds [OF assms(1)] by (simp add: e_def)
  have e0: "0 \<le> e" using bitlen_pos [OF assms(1)] by (simp add: e_def)
  have "(2::int) ^ nat e < 2 ^ 53" using b assms(2) by linarith
  then have "nat e < 53" by (rule power_less_imp_less_exp [rotated]) simp
  then have e52: "e \<le> 52" by simp
  define m where "m = nat (52 - e)"
  have ulp: "(2::rat) powi (max e (- 1022) - 52) = inverse (2 ^ m)"
  proof -
    have "max e (- 1022) - 52 = - int m" using e0 e52 by (simp add: m_def)
    then show ?thesis by (simp add: power_int_minus)
  qed
  have ab: "\<bar>rat_of_int k\<bar> = of_int k" using assms(1) by simp
  have ex: "expo (rat_of_int k) = e" using assms(1) by (simp add: expo_of_int e_def)
  have q: "rat_of_int k / inverse (2 ^ m) = of_int (k * 2 ^ m)"
    by (simp add: field_simps)
  have r: "rat_of_int (k * 2 ^ m) * inverse (2 ^ m) = of_int k"
    by (simp add: field_simps)
  have "rat_of_int k < 2 ^ 53" using assms(2)
    by (metis of_int_less_numeral_power_cancel_iff)
  also have "\<dots> \<le> 2 ^ 1024" by simp
  finally have small: "\<not> 2 powi 1024 \<le> rat_of_int k"
    by (simp add: power_int_def)
  have pos: "0 < rat_of_int k" "rat_of_int k \<noteq> 0" using assms(1) by simp_all
  show ?thesis
    unfolding roundDouble_def Let_def ab ex ulp q roundHalfEven_of_int r
    using small pos by simp
qed

lemma roundDouble_of_int:
  assumes "\<bar>k\<bar> < 2 ^ 53"
  shows "roundDouble (of_int k) = Num (of_int k)"
proof (cases "k = 0")
  case True then show ?thesis by (simp add: roundDouble_def)
next
  case False
  show ?thesis
  proof (cases "0 < k")
    case True
    with assms show ?thesis by (simp add: roundDouble_of_int_pos)
  next
    case neg: False
    then have p: "0 < - k" "- k < 2 ^ 53" using False assms by simp_all
    from roundDouble_of_int_pos [OF p]
    have "roundDouble (of_int (- k)) = Num (of_int (- k))" .
    moreover have "roundDouble (of_int k) =
       (case roundDouble (of_int (- k)) of Num r \<Rightarrow> Num (- r) | PosInfinity \<Rightarrow> NegInfinity
        | NegInfinity \<Rightarrow> PosInfinity | NaN \<Rightarrow> NaN)"
      using neg False by (simp add: roundDouble_def Let_def)
    ultimately show ?thesis by simp
  qed
qed

lemma roundDouble_numeral [simp]:
  "numeral n < (2::int) ^ 53 \<Longrightarrow> roundDouble (numeral n) = Num (numeral n)"
  using roundDouble_of_int [of "numeral n"] by simp

lemma roundDouble_one [simp]: "roundDouble 1 = Num 1"
  using roundDouble_of_int [of 1] by simp

lemma roundDouble_zero [simp]: "roundDouble 0 = Num 0"
  by (simp add: roundDouble_def)

text \<open>On whole numbers whose result stays below \<open>2 ^ 53\<close> the operators are exact.\<close>

lemma toNumber_exact: "\<bar>k\<bar> < 2 ^ 53 \<Longrightarrow> toNumber k = Num (of_int k)"
  by (simp add: toNumber_def roundDouble_of_int)

lemma js_times_int:
  "\<bar>a * b\<bar> < 2 ^ 53 \<Longrightarrow> js_times (Num (of_int a)) (Num (of_int b)) = Num (of_int (a * b))"
  using roundDouble_of_int [of "a * b"] by simp

lemma js_plus_int:
  "\<bar>a + b\<bar> < 2 ^ 53 \<Longrightarrow> js_plus (Num (of_int a)) (Num (of_int b)) = Num (of_int (a + b))"
  using roundDouble_of_int [of "a + b"] by simp

text \<open>
  The price formula of the save hook on a whole-number rate: as long as the rate plus both
  surcharges, times the days, stays below \<open>2 ^ 53\<close>, no step rounds.
\<close>

lemma price_exact:
  assumes "0 \<le> r" and "1 \<le> d" and "(r + 25) * d < 2 ^ 53"
  shows "(let n = toNumber d; base = js_times (Num (of_int r)) n;
              withInsurance = (if ins then js_plus base (js_times (Num 15) n) else base)
          in if drv then js_plus withInsurance (js_times (Num 10) n) else withInsurance)
         = Num (of_int (r * d + (if ins then 15 * d else 0) + (if drv then 10 * d else 0)))"
proof -
  have e: "(r + 25) * d = r * d + 15 * d + 10 * d" by (simp add: algebra_simps)
  have rd: "0 \<le> r * d" using assms(1,2) by simp
  have bd: "\<bar>d\<bar> < 2 ^ 53" "\<bar>r * d\<bar> < 2 ^ 53" "\<bar>15 * d\<bar> < 2 ^ 53" "\<bar>10 * d\<bar> < 2 ^ 53"
    "\<bar>r * d + 15 * d\<bar> < 2 ^ 53" "\<bar>r * d + 10 * d\<bar> < 2 ^ 53"
    "\<bar>r * d + 15 * d + 10 * d\<bar> < 2 ^ 53"
    using assms(2,3) rd unfolding e by linarith+
  have n: "toNumber d = Num (of_int d)" by (rule toNumber_exact [OF bd(1)])
  have base: "js_times (Num (of_int r)) (Num (of_int d)) = Num (of_int (r * d))"
    by (rule js_times_int [OF bd(2)])
  have s15: "js_times (Num 15) (Num (of_int d)) = Num (of_int (15 * d))"
    using js_times_int [of 15 d] bd(3) by simp
  have s10: "js_times (Num 10) (Num (of_int d)) = Num (of_int (10 * d))"
    using js_times_int [of 10 d] bd(4) by simp
  have a1: "js_plus (Num (of_int (r * d))) (Num (of_int (15 * d))) = Num (of_int (r * d + 15 * d))"
    by (rule js_plus_int [OF bd(5)])
  have a2: "js_plus (Num (of_int (r * d))) (Num (of_int (10 * d))) = Num (of_int (r * d + 10 * d))"
    by (rule js_plus_int [OF bd(6)])
  have a3: "js_plus (Num (of_int (r * d + 15 * d))) (Num (of_int (10 * d)))
              = Num (of_int (r * d + 15 * d + 10 * d))"
    by (rule js_plus_int [OF bd(7)])
  show ?thesis
    by (cases ins; cases drv)
       (simp_all only: Let_def n base s15 s10 a1 a2 a3 if_True if_False add_0_right)
qed

lemma ceilDays_ceiling: "ceilDays ms = \<lceil>real_of_int ms / 86400000\<rceil>"
proof -
  have "\<lceil>real_of_int ms / real_of_int 86400000\<rceil> = - ((- ms) div 86400000)"
    by (rule ceiling_divide_eq_div)
  then show ?thesis by (simp add: ceilDays_def oneDay_def)
qed

lemma ceilDays_pos: "0 < ms \<Longrightarrow> 1 \<le> ceilDays ms"
proof -
  assume "0 < ms"
  then have "(- ms) div 86400000 < 0" by simp
  then show ?thesis by (simp add: ceilDays_def oneDay_def)
qed

text \<open>The save hook touches \<open>totalDays\<close> and \<open>totalPrice\<close> only.\<close>

lemma pre_save_fields [simp]:
  "bookingId (pre_save b) = bookingId b"
  "user (pre_save b) = user b"
  "car (pre_save b) = car b"
  "pickupDate (pre_save b) = pickupDate b"
  "dropoffDate (pre_save b) = dropoffDate b"
  "Booking.pricePerDay (pre_save b) = Booking.pricePerDay b"
  "bookingStatus (pre_save b) = bookingStatus b"
  "additionalDriver (pre_save b) = additionalDriver b"
  "insuranceSelected (pre_save b) = insuranceSelected b"
  "cancellationReason (pre_save b) = cancellationReason b"
  by (simp_all add: pre_save_def Let_def)

lemma pre_save_totalDays:
  "totalDays (pre_save b) = ceilDays \<bar>dropoffDate b - pickupDate b\<bar>"
  by (simp add: pre_save_def Let_def)

lemma pre_save_totalPrice:
  "totalPrice (pre_save b) =
     (let n = toNumber (totalDays (pre_save b));
          base = js_times (Booking.pricePerDay b) n;
          withInsurance = (if insuranceSelected b then js_plus base (js_times (Num 15) n)
                           else base)
      in if additionalDriver b then js_plus withInsurance (js_times (Num 10) n)
         else withInsurance)"
  by (simp add: pre_save_def Let_def)

text \<open>What a successful create has checked, and what it leaves behind.\<close>

lemma createBooking_Inr:
  assumes "createBooking st usr body = (Inr b, st')"
  shows "\<exists>cid p d c.
           body_carId body = Some cid \<and> body_pickupDate body = Some p
         \<and> body_dropoffDate body = Some d \<and> p < d \<and> cars st cid = Some c \<and> isAvailable c
         \<and> existingBooking st cid p d = None
         \<and> b = pre_save ((bookingDoc usr body cid p d c (ceilDays (d - p)))
                            \<lparr>bookingId := newId (bookings st)\<rparr>)
         \<and> st' = st\<lparr>bookings := bookings st @ [b], cars := (cars st)(cid \<mapsto> reserveOnCreate c)\<rparr>"
  using assms
  by (auto simp: createBooking_def Booking_create_def Let_def
           split: option.splits if_splits sum.splits prod.splits)

text \<open>The checks that make a create succeed.\<close>

lemma createBooking_ok:
  assumes "body_carId body = Some cid" "body_pickupDate body = Some p"
    "body_dropoffDate body = Some d" "\<not> falsy (body_pickupLocation body)" "p < d"
    "cars st cid = Some c" "isAvailable c" "existingBooking st cid p d = None"
    "\<not> falsy (body_pickupTime body)" "\<not> falsy (body_dropoffTime body)"
    "case body_specialRequests body of None \<Rightarrow> True | Some s \<Rightarrow> length s \<le> 500"
  shows "createBooking st usr body =
      (Inr (pre_save ((bookingDoc usr body cid p d c (ceilDays (d - p)))
                        \<lparr>bookingId := newId (bookings st)\<rparr>)),
       st\<lparr>bookings := bookings st @
              [pre_save ((bookingDoc usr body cid p d c (ceilDays (d - p)))
                           \<lparr>bookingId := newId (bookings st)\<rparr>)],
          cars := (cars st)(cid \<mapsto> reserveOnCreate c)\<rparr>)"
proof -
  have days: "1 \<le> ceilDays (d - p)" using assms(5) by (simp add: ceilDays_pos)
  have valid: "schema_valid (bookingDoc usr body cid p d c (ceilDays (d - p)))"
    using assms days by (simp add: schema_valid_def bookingDoc_def)
  show ?thesis
    using assms days valid
    by (simp add: createBooking_def Booking_create_def Let_def)
qed

text \<open>The overlap query finds a booking exactly when one blocks the window.\<close>

lemma existingBooking_None_iff:
  "existingBooking st cid p d = None \<longleftrightarrow> \<not> (\<exists>b \<in> set (bookings st). blocks cid p d b)"
  by (auto simp: existingBooking_def find_None_iff)

text \<open>Saving and looking up.\<close>

lemma find_map_replace:
  "find (\<lambda>x. bookingId x = bookingId b) bs \<noteq> None \<Longrightarrow>
   find (\<lambda>x. bookingId x = bookingId b)
     (map (\<lambda>x. if bookingId x = bookingId b then pre_save b else x) bs) = Some (pre_save b)"
  by (induction bs) auto

lemma findById_Booking_save:
  "findById st (bookingId b) \<noteq> None \<Longrightarrow>
   findById (Booking_save st b) (bookingId b) = Some (pre_save b)"
  by (simp add: findById_def Booking_save_def find_map_replace)

lemma findById_id: "findById st i = Some b \<Longrightarrow> bookingId b = i"
  by (auto simp: findById_def find_Some_iff)

lemma cars_Booking_save [simp]: "cars (Booking_save st b) = cars st"
  by (simp add: Booking_save_def)

lemma users_Booking_save [simp]: "users (Booking_save st b) = users st"
  by (simp add: Booking_save_def)

lemma findById_cars_update [simp]: "findById (st\<lparr>cars := f\<rparr>) i = findById st i"
  by (simp add: findById_def)

lemma validStatus_nonempty: "validStatus s = Some t \<Longrightarrow> \<not> falsy (Some s)"
  by (auto simp: validStatus_def falsy_def split: if_splits)

text \<open>Saving a loaded booking stores it under the id it was loaded with.\<close>

lemma findById_save_status:
  assumes "findById st i = Some b0" "bookingId b1 = bookingId b0"
  shows "findById (Booking_save st b1) i = Some (pre_save b1)"
proof -
  have i: "bookingId b1 = i" using assms findById_id by simp
  have "findById st (bookingId b1) \<noteq> None" using assms i by simp
  from findById_Booking_save [OF this] show ?thesis using i by simp
qed

text \<open>\<open>updateBooking\<close> on a stored booking with a valid target status, branch by branch.\<close>

lemma updateBooking_to_cancelled:
  assumes "findById st i = Some b0" "body_status body = Some ''cancelled''"
    "bookingStatus b0 \<noteq> cancelled"
    "b1 = b0\<lparr>bookingStatus := cancelled,
              cancellationReason := (if falsy (body_cancellationReason body)
                                     then Some ''Cancelled by admin''
                                     else body_cancellationReason body)\<rparr>"
  shows "updateBooking st usr i body =
       (Inr (pre_save b1),
        Booking_save (case cars st (car b0) of None \<Rightarrow> st
                      | Some c \<Rightarrow> st\<lparr>cars := (cars st)(car b0 \<mapsto> releaseUnit c)\<rparr>) b1)"
  using assms
  by (auto simp: updateBooking_def validStatus_def falsy_def Let_def split: option.splits)

lemma updateBooking_no_inventory:
  assumes "findById st i = Some b0" "body_status body = Some s" "validStatus s = Some t"
    "\<not> (t = cancelled \<and> bookingStatus b0 \<noteq> cancelled)"
    "\<not> (t = confirmed \<and> bookingStatus b0 = cancelled)"
  shows "updateBooking st usr i body =
       (Inr (pre_save (b0\<lparr>bookingStatus := t\<rparr>)), Booking_save st (b0\<lparr>bookingStatus := t\<rparr>))"
  using assms validStatus_nonempty [OF assms(3)]
  by (auto simp: updateBooking_def Let_def)

lemma updateBooking_reconfirm:
  assumes "findById st i = Some b0" "body_status body = Some ''confirmed''"
    "bookingStatus b0 = cancelled"
  shows "updateBooking st usr i body =
     (case cars st (car b0) of
        None \<Rightarrow> (Inr (pre_save (b0\<lparr>bookingStatus := confirmed\<rparr>)),
                 Booking_save st (b0\<lparr>bookingStatus := confirmed\<rparr>))
      | Some c \<Rightarrow>
          if totalCarsAvailable c \<le> 0 then (Inl FullyBooked, st)
          else (Inr (pre_save (b0\<lparr>bookingStatus := confirmed\<rparr>)),
                Booking_save (st\<lparr>cars := (cars st)(car b0 \<mapsto> reserveUnit c)\<rparr>)
                  (b0\<lparr>bookingStatus := confirmed\<rparr>)))"
  using assms
  by (auto simp: updateBooking_def validStatus_def falsy_def Let_def split: option.splits)

text \<open>\<open>cancelBooking\<close> once every check has passed.\<close>

lemma cancelBooking_passed:
  assumes "findById st i = Some b0" "\<not> falsy reason" "user b0 \<in> users st"
    "user b0 = actor_id usr \<or> actor_role usr = admin_role"
    "bookingStatus b0 \<noteq> cancelled" "bookingStatus b0 \<noteq> completed"
    "b1 = b0\<lparr>bookingStatus := cancelled, cancellationReason := reason\<rparr>"
  shows "cancelBooking st usr i reason =
     (case cars st (car b0) of
        None \<Rightarrow> (Inl TypeError, Booking_save st b1)
      | Some c \<Rightarrow> (Inr (pre_save b1),
                   (Booking_save st b1)\<lparr>cars := (cars st)(car b0 \<mapsto> releaseUnit c)\<rparr>))"
  using assms
  by (auto simp: cancelBooking_def Let_def split: option.splits)

text \<open>The three car updates, field by field.\<close>

lemma releaseUnit_fields:
  "totalCarsAvailable (releaseUnit c) = totalCarsAvailable c + 1"
  "isAvailable (releaseUnit c) = (isAvailable c \<or> totalCarsAvailable c + 1 > 0)"
  "Car.pricePerDay (releaseUnit c) = Car.pricePerDay c"
  by (auto simp: releaseUnit_def Let_def)

lemma reserveUnit_fields:
  "totalCarsAvailable (reserveUnit c) = totalCarsAvailable c - 1"
  "isAvailable (reserveUnit c) = (if totalCarsAvailable c - 1 = 0 then False else isAvailable c)"
  "Car.pricePerDay (reserveUnit c) = Car.pricePerDay c"
  by (auto simp: reserveUnit_def Let_def)

lemma reserveOnCreate_fields:
  "totalCarsAvailable (reserveOnCreate c) = max 0 (totalCarsAvailable c - 1)"
  "isAvailable (reserveOnCreate c) = (if totalCarsAvailable c = 1 then False else isAvailable c)"
  "Car.pricePerDay (reserveOnCreate c) = Car.pricePerDay c"
  by (auto simp: reserveOnCreate_def Let_def)

lemma updateBooking_to_cancelled_effect:
  assumes "findById st i = Some b0" "body_status body = Some ''cancelled''"
    "bookingStatus b0 \<noteq> cancelled"
  shows "\<not> isl (fst (updateBooking st usr i body))"
    and "map_option bookingStatus (findById (snd (updateBooking st usr i body)) i) = Some cancelled"
    and "cars (snd (updateBooking st usr i body)) =
           (case cars st (car b0) of None \<Rightarrow> cars st
            | Some c \<Rightarrow> (cars st)(car b0 \<mapsto> releaseUnit c))"
proof -
  define b1 where "b1 = b0\<lparr>bookingStatus := cancelled,
              cancellationReason := (if falsy (body_cancellationReason body)
                                     then Some ''Cancelled by admin''
                                     else body_cancellationReason body)\<rparr>"
  define st1 where "st1 = (case cars st (car b0) of None \<Rightarrow> st
                      | Some c \<Rightarrow> st\<lparr>cars := (cars st)(car b0 \<mapsto> releaseUnit c)\<rparr>)"
  have u: "updateBooking st usr i body = (Inr (pre_save b1), Booking_save st1 b1)"
    unfolding st1_def by (rule updateBooking_to_cancelled [OF assms b1_def])
  have id: "bookingId b1 = bookingId b0" and stat: "bookingStatus b1 = cancelled"
    by (simp_all add: b1_def)
  have f: "findById st1 i = Some b0"
    using assms(1) by (simp add: st1_def split: option.splits)
  show "\<not> isl (fst (updateBooking st usr i body))" using u by simp
  show "map_option bookingStatus (findById (snd (updateBooking st usr i body)) i) = Some cancelled"
    using u stat findById_save_status [OF f id] by simp
  show "cars (snd (updateBooking st usr i body)) =
           (case cars st (car b0) of None \<Rightarrow> cars st
            | Some c \<Rightarrow> (cars st)(car b0 \<mapsto> releaseUnit c))"
    using u by (simp add: st1_def split: option.splits)
qed

lemma updateBooking_no_inventory_effect:
  assumes "findById st i = Some b0" "body_status body = Some s" "validStatus s = Some t"
    "\<not> (t = cancelled \<and> bookingStatus b0 \<noteq> cancelled)"
    "\<not> (t = confirmed \<and> bookingStatus b0 = cancelled)"
  shows "\<not> isl (fst (updateBooking st usr i body))"
    and "map_option bookingStatus (findById (snd (updateBooking st usr i body)) i) = Some t"
    and "cars (snd (updateBooking st usr i body)) = cars st"
proof -
  note u = updateBooking_no_inventory [OF assms, of usr]
  have id: "bookingId (b0\<lparr>bookingStatus := t\<rparr>) = bookingId b0" by simp
  show "\<not> isl (fst (updateBooking st usr i body))" using u by simp
  show "map_option bookingStatus (findById (snd (updateBooking st usr i body)) i) = Some t"
    using u findById_save_status [OF assms(1) id] by simp
  show "cars (snd (updateBooking st usr i body)) = cars st" using u by simp
qed

lemma updateBooking_reconfirm_effect:
  assumes "findById st i = Some b0" "body_status body = Some ''confirmed''"
    "bookingStatus b0 = cancelled"
    "cars st (car b0) = None \<or> (\<exists>c. cars st (car b0) = Some c \<and> 0 < totalCarsAvailable c)"
  shows "\<not> isl (fst (updateBooking st usr i body))"
    and "map_option bookingStatus (findById (snd (updateBooking st usr i body)) i) = Some confirmed"
    and "cars (snd (updateBooking st usr i body)) =
           (case cars st (car b0) of None \<Rightarrow> cars st
            | Some c \<Rightarrow> (cars st)(car b0 \<mapsto> reserveUnit c))"
proof -
  define b1 where "b1 = b0\<lparr>bookingStatus := confirmed\<rparr>"
  define st1 where "st1 = (case cars st (car b0) of None \<Rightarrow> st
                      | Some c \<Rightarrow> st\<lparr>cars := (cars st)(car b0 \<mapsto> reserveUnit c)\<rparr>)"
  have u: "updateBooking st usr i body = (Inr (pre_save b1), Booking_save st1 b1)"
    using updateBooking_reconfirm [OF assms(1,2,3), of usr] assms(4)
    by (auto simp: b1_def st1_def)
  have id: "bookingId b1 = bookingId b0" and stat: "bookingStatus b1 = confirmed"
    by (simp_all add: b1_def)
  have f: "findById st1 i = Some b0"
    using assms(1) by (simp add: st1_def split: option.splits)
  show "\<not> isl (fst (updateBooking st usr i body))" using u by simp
  show "map_option bookingStatus (findById (snd (updateBooking st usr i body)) i) = Some confirmed"
    using u stat findById_save_status [OF f id] by simp
  show "cars (snd (updateBooking st usr i body)) =
           (case cars st (car b0) of None \<Rightarrow> cars st
            | Some c \<Rightarrow> (cars st)(car b0 \<mapsto> reserveUnit c))"
    using u by (simp add: st1_def split: option.splits)
qed

lemma updateBooking_reconfirm_full:
  assumes "findById st i = Some b0" "body_status body = Some ''confirmed''"
    "bookingStatus b0 = cancelled" "cars st (car b0) = Some c" "totalCarsAvailable c \<le> 0"
  shows "updateBooking st usr i body = (Inl FullyBooked, st)"
  using updateBooking_reconfirm [OF assms(1,2,3), of usr] assms(4,5) by simp

lemma cancelBooking_effect:
  assumes "findById st i = Some b0" "\<not> falsy reason" "user b0 \<in> users st"
    "user b0 = actor_id usr \<or> actor_role usr = admin_role"
    "bookingStatus b0 \<noteq> cancelled" "bookingStatus b0 \<noteq> completed"
  shows "map_option bookingStatus (findById (snd (cancelBooking st usr i reason)) i) = Some cancelled"
    and "cars (snd (cancelBooking st usr i reason)) =
           (case cars st (car b0) of None \<Rightarrow> cars st
            | Some c \<Rightarrow> (cars st)(car b0 \<mapsto> releaseUnit c))"
    and "isl (fst (cancelBooking st usr i reason)) \<longleftrightarrow> cars st (car b0) = None"
proof -
  define b1 where "b1 = b0\<lparr>bookingStatus := cancelled, cancellationReason := reason\<rparr>"
  note u = cancelBooking_passed [OF assms b1_def]
  have id: "bookingId b1 = bookingId b0" and stat: "bookingStatus b1 = cancelled"
    by (simp_all add: b1_def)
  note fs = findById_save_status [OF assms(1) id]
  show "map_option bookingStatus (findById (snd (cancelBooking st usr i reason)) i) = Some cancelled"
    using u stat fs by (simp split: option.splits)
  show "cars (snd (cancelBooking st usr i reason)) =
           (case cars st (car b0) of None \<Rightarrow> cars st
            | Some c \<Rightarrow> (cars st)(car b0 \<mapsto> releaseUnit c))"
    using u by (simp split: option.splits)
  show "isl (fst (cancelBooking st usr i reason)) \<longleftrightarrow> cars st (car b0) = None"
    using u by (simp split: option.splits)
qed

lemma cancelBooking_rejected:
  assumes "findById st i = None \<or> falsy reason
      \<or> (\<exists>b0. findById st i = Some b0 \<and>
            (user b0 \<notin> users st \<or> (user b0 \<noteq> actor_id usr \<and> actor_role usr \<noteq> admin_role)
             \<or> bookingStatus b0 = cancelled \<or> bookingStatus b0 = completed))"
  shows "isl (fst (cancelBooking st usr i reason)) \<and> snd (cancelBooking st usr i reason) = st"
  using assms by (auto simp: cancelBooking_def split: option.splits)

text \<open>The availability flag under the three car updates.\<close>

lemma reserveOnCreate_consistent:
  "car_consistent c \<Longrightarrow> isAvailable c \<Longrightarrow> car_consistent (reserveOnCreate c)"
  by (auto simp: car_consistent_def reserveOnCreate_fields)

lemma releaseUnit_consistent: "car_consistent c \<Longrightarrow> car_consistent (releaseUnit c)"
  by (auto simp: car_consistent_def releaseUnit_fields)

lemma reserveUnit_consistent:
  "car_consistent c \<Longrightarrow> 0 < totalCarsAvailable c \<Longrightarrow> car_consistent (reserveUnit c)"
  by (auto simp: car_consistent_def reserveUnit_fields)

text \<open>Three days at the double 10.1: the exact product lies between two doubles.\<close>

lemma roundDouble_tenPointOne_times_3:
  "roundDouble (tenPointOne * 3) = Num (2132172948583219 / 70368744177664)"
  by code_simp

text \<open>Unfolding sets for running the controller on the one-car database.\<close>

lemmas ex_defs = exCar_def exStore_def exBooking_def exInsured3_def exInsured2_def exBooking2_def
  exRequest_def
  exSetStatus_def alice_def bob_def admin_def

lemmas run_defs = createBooking_def cancelBooking_def updateBooking_def Booking_create_def
  Booking_save_def findById_def existingBooking_def blocks_def bookingDoc_def pre_save_def
  schema_valid_def newId_def controllerPrice_def reserveOnCreate_def releaseUnit_def
  reserveUnit_def validStatus_def falsy_def truthy_def ceilDays_def oneDay_def toNumber_def
  Let_def

section \<open>Creation\<close>

text \<open>
  C1 (as stated in the specification): a create request on an existing, flagged-available
  car that passes validation and the overlap check fails with FullyBooked when the unit
  counter is 0, and nothing is persisted. The controller does not do this: on car 1 with
  counter 0 and the flag still true, the request is accepted, the booking is stored, and
  the counter stays at \<open>max 0 (0 - 1) = 0\<close>.
\<close>

theorem create_accepted_at_zero_units:
  "totalCarsAvailable (exCar 0 True) = 0 \<and> isAvailable (exCar 0 True)
   \<and> createBooking (exStore 0 True []) alice (exRequest 1 3 (Some False))
       = (Inr (exBooking confirmed None), exStore 0 True [exBooking confirmed None])
   \<and> fst (createBooking (exStore 0 True []) alice (exRequest 1 3 (Some False))) \<noteq> Inl FullyBooked"
  by (simp add: ex_defs run_defs)

text \<open>
  C1 (amended): \<open>createBooking\<close> never answers FullyBooked and never tests the unit
  counter. For every create request on an existing car whose \<open>isAvailable\<close> flag is true,
  whose window passes validation and the overlap check, and whose document passes the
  schema validators (pick-up and drop-off time given, special requests of at most 500
  characters), the booking is persisted whatever the counter is, and the counter becomes
  \<open>max 0 (counter - 1)\<close>. Creation is limited by the flag and by the overlap check only.
\<close>

theorem create_never_tests_unit_counter:
  assumes "body_carId body = Some cid" and "body_pickupDate body = Some p"
    and "body_dropoffDate body = Some d" and "\<not> falsy (body_pickupLocation body)"
    and "p < d" and "cars st cid = Some c" and "isAvailable c"
    and "existingBooking st cid p d = None"
    and "\<not> falsy (body_pickupTime body)" and "\<not> falsy (body_dropoffTime body)"
    and "case body_specialRequests body of None \<Rightarrow> True | Some s \<Rightarrow> length s \<le> 500"
  shows "(\<exists>b. fst (createBooking st usr body) = Inr b
             \<and> bookings (snd (createBooking st usr body)) = bookings st @ [b])
       \<and> map_option totalCarsAvailable (cars (snd (createBooking st usr body)) cid)
           = Some (max 0 (totalCarsAvailable c - 1))
       \<and> fst (createBooking st2 usr2 body2) \<noteq> Inl FullyBooked"
proof (intro conjI)
  note ok = createBooking_ok [OF assms, of usr]
  show "\<exists>b. fst (createBooking st usr body) = Inr b
             \<and> bookings (snd (createBooking st usr body)) = bookings st @ [b]"
    by (simp add: ok)
  show "map_option totalCarsAvailable (cars (snd (createBooking st usr body)) cid)
           = Some (max 0 (totalCarsAvailable c - 1))"
    by (simp add: ok reserveOnCreate_fields)
  show "fst (createBooking st2 usr2 body2) \<noteq> Inl FullyBooked"
    by (auto simp: createBooking_def Booking_create_def Let_def
             split: option.splits sum.splits prod.splits)
qed

theorem create_never_tests_unit_counter_witness:
  "(\<exists>b. fst (createBooking (exStore 0 True []) alice (exRequest 1 3 (Some False))) = Inr b
        \<and> bookings (snd (createBooking (exStore 0 True []) alice (exRequest 1 3 (Some False))))
            = [] @ [b])
   \<and> map_option totalCarsAvailable
        (cars (snd (createBooking (exStore 0 True []) alice (exRequest 1 3 (Some False)))) 1)
       = Some (max 0 (0 - 1))"
proof -
  have h: "body_carId (exRequest 1 3 (Some False)) = Some 1"
    "body_pickupDate (exRequest 1 3 (Some False)) = Some (1 * 86400000)"
    "body_dropoffDate (exRequest 1 3 (Some False)) = Some (3 * 86400000)"
    "\<not> falsy (body_pickupLocation (exRequest 1 3 (Some False)))"
    "(1 * 86400000 :: int) < 3 * 86400000"
    "cars (exStore 0 True []) 1 = Some (exCar 0 True)"
    "isAvailable (exCar 0 True)"
    "existingBooking (exStore 0 True []) 1 (1 * 86400000) (3 * 86400000) = None"
    "\<not> falsy (body_pickupTime (exRequest 1 3 (Some False)))"
    "\<not> falsy (body_dropoffTime (exRequest 1 3 (Some False)))"
    "case body_specialRequests (exRequest 1 3 (Some False)) of None \<Rightarrow> True
       | Some s \<Rightarrow> length s \<le> 500"
    by (simp_all add: ex_defs falsy_def existingBooking_def)
  from create_never_tests_unit_counter [OF h, of alice]
  show ?thesis by (simp add: ex_defs)
qed

text \<open>
  C3 (as stated in the specification): every create request fails with SlotConflict if and
  only if a pending or confirmed booking of the car overlaps the window. The availability
  flag is tested first: once booking 1 has taken the only unit of car 1 (flag false), a
  second request for the overlapping days 2 to 4 is answered "Car is not available for
  booking", not SlotConflict, although booking 1 blocks the window.
\<close>

theorem overlap_answered_as_unavailable:
  "createBooking (exStore 1 True []) alice (exRequest 1 3 (Some False))
     = (Inr (exBooking confirmed None), exStore 0 False [exBooking confirmed None])
   \<and> blocks 1 (2 * 86400000) (4 * 86400000) (exBooking confirmed None)
   \<and> fst (createBooking (exStore 0 False [exBooking confirmed None]) bob
            (exRequest 2 4 (Some False))) = Inl ResourceUnavailable
   \<and> fst (createBooking (exStore 0 False [exBooking confirmed None]) bob
            (exRequest 2 4 (Some False))) \<noteq> Inl SlotConflict"
  by (simp add: ex_defs run_defs)

text \<open>
  C3 (amended): for every create request with its required fields present and drop-off
  after pick-up, on an existing car whose \<open>isAvailable\<close> flag is true, the operation fails
  with SlotConflict if and only if some booking of the same car in status pending or
  confirmed has a window \<open>[c, e)\<close> with \<open>pickup < e\<close> and \<open>c < dropoff\<close>. So a booking whose
  drop-off equals the new pick-up does not block, and cancelled or completed bookings
  never block.
\<close>

theorem slot_conflict_iff_overlap:
  assumes "body_carId body = Some cid" and "body_pickupDate body = Some p"
    and "body_dropoffDate body = Some d" and "\<not> falsy (body_pickupLocation body)"
    and "p < d" and "cars st cid = Some c" and "isAvailable c"
  shows "fst (createBooking st usr body) = Inl SlotConflict
     \<longleftrightarrow> (\<exists>b \<in> set (bookings st). car b = cid
            \<and> (bookingStatus b = pending \<or> bookingStatus b = confirmed)
            \<and> p < dropoffDate b \<and> pickupDate b < d)"
proof -
  have ex: "(existingBooking st cid p d \<noteq> None) \<longleftrightarrow> (\<exists>b \<in> set (bookings st). car b = cid
            \<and> (bookingStatus b = pending \<or> bookingStatus b = confirmed)
            \<and> p < dropoffDate b \<and> pickupDate b < d)"
    by (auto simp: existingBooking_None_iff blocks_def)
  have "fst (createBooking st usr body) = Inl SlotConflict \<longleftrightarrow> existingBooking st cid p d \<noteq> None"
    using assms
    by (auto simp: createBooking_def Booking_create_def Let_def split: sum.splits prod.splits)
  with ex show ?thesis by simp
qed

text \<open>
  The witness runs three requests by user 8 on car 1 (flag true): days 2 to 4 against the
  confirmed booking of days 1 to 3 (conflict), days 3 to 5 against it (touching, no
  conflict), and days 2 to 4 against the same booking once cancelled (no conflict).
\<close>

theorem slot_conflict_iff_overlap_witness:
  "fst (createBooking (exStore 1 True [exBooking confirmed None]) bob (exRequest 2 4 None))
     = Inl SlotConflict
   \<and> fst (createBooking (exStore 1 True [exBooking confirmed None]) bob (exRequest 3 5 None))
     \<noteq> Inl SlotConflict
   \<and> fst (createBooking (exStore 1 True [exBooking cancelled None]) bob (exRequest 2 4 None))
     \<noteq> Inl SlotConflict"
proof -
  have req: "\<And>p d. body_carId (exRequest p d None) = Some 1"
    "\<And>p d. body_pickupDate (exRequest p d None) = Some (p * 86400000)"
    "\<And>p d. body_dropoffDate (exRequest p d None) = Some (d * 86400000)"
    "\<And>p d. \<not> falsy (body_pickupLocation (exRequest p d None))"
    by (simp_all add: ex_defs falsy_def)
  have car: "\<And>bs. cars (exStore 1 True bs) 1 = Some (exCar 1 True)" "isAvailable (exCar 1 True)"
    by (simp_all add: ex_defs)
  have w24: "(2 * 86400000 :: int) < 4 * 86400000" and w35: "(3 * 86400000 :: int) < 5 * 86400000"
    by simp_all
  note a = slot_conflict_iff_overlap [OF req(1) req(2) req(3) req(4) w24 car(1) car(2),
      of "[exBooking confirmed None]" bob]
  note b = slot_conflict_iff_overlap [OF req(1) req(2) req(3) req(4) w35 car(1) car(2),
      of "[exBooking confirmed None]" bob]
  note c = slot_conflict_iff_overlap [OF req(1) req(2) req(3) req(4) w24 car(1) car(2),
      of "[exBooking cancelled None]" bob]
  from a b c show ?thesis by (simp add: exStore_def exBooking_def)
qed

text \<open>
  C4: for every successfully created reservation with \<open>dropoffDate > pickupDate\<close>, the
  persisted \<open>totalDays\<close> is \<open>ceil((dropoffDate - pickupDate) / 86400000)\<close> and at least 1,
  and the persisted \<open>totalPrice\<close> is \<open>pricePerDay * totalDays\<close>, plus \<open>15 * totalDays\<close> when
  the stored \<open>insuranceSelected\<close> is true, plus \<open>10 * totalDays\<close> when the stored
  \<open>additionalDriver\<close> is true; \<open>pricePerDay\<close> is the car's rate at creation. The products
  and sums are those of JavaScript Numbers, taken in this order, for every rate; for a
  whole-number rate \<open>r\<close> with \<open>(r + 25) * totalDays\<close> below \<open>2 ^ 53\<close> they are the exact
  integer products and sums.
\<close>

theorem created_days_and_price:
  assumes "createBooking st usr body = (Inr b, st')"
    and "pickupDate b < dropoffDate b"
  shows "b \<in> set (bookings st')
       \<and> totalDays b = \<lceil>real_of_int (dropoffDate b - pickupDate b) / 86400000\<rceil>
       \<and> 1 \<le> totalDays b
       \<and> map_option Car.pricePerDay (cars st (car b)) = Some (Booking.pricePerDay b)
       \<and> totalPrice b =
           (let n = toNumber (totalDays b);
                base = js_times (Booking.pricePerDay b) n;
                withInsurance = (if insuranceSelected b then js_plus base (js_times (Num 15) n)
                                 else base)
            in if additionalDriver b then js_plus withInsurance (js_times (Num 10) n)
               else withInsurance)
       \<and> (Booking.pricePerDay b = Num (of_int r) \<and> 0 \<le> r \<and> (r + 25) * totalDays b < 2 ^ 53
            \<longrightarrow> totalPrice b = Num (of_int (r * totalDays b
                                   + (if insuranceSelected b then 15 * totalDays b else 0)
                                   + (if additionalDriver b then 10 * totalDays b else 0))))"
proof -
  from createBooking_Inr [OF assms(1)] obtain cid p d c where
    c: "cars st cid = Some c"
    and b: "b = pre_save ((bookingDoc usr body cid p d c (ceilDays (d - p)))
                            \<lparr>bookingId := newId (bookings st)\<rparr>)"
    and st': "st' = st\<lparr>bookings := bookings st @ [b],
                       cars := (cars st)(cid \<mapsto> reserveOnCreate c)\<rparr>"
    by blast
  have mem: "b \<in> set (bookings st')" using st' by simp
  have rate: "map_option Car.pricePerDay (cars st (car b)) = Some (Booking.pricePerDay b)"
    using b c by (simp add: bookingDoc_def)
  obtain doc where doc: "b = pre_save doc" using b by blast
  have win: "pickupDate doc < dropoffDate doc" using assms(2) doc by simp
  have days: "totalDays b = ceilDays (dropoffDate b - pickupDate b)"
    using win doc by (simp add: pre_save_totalDays)
  have d1: "totalDays b = \<lceil>real_of_int (dropoffDate b - pickupDate b) / 86400000\<rceil>"
    using days by (simp only: ceilDays_ceiling)
  have d2: "1 \<le> totalDays b" using days assms(2) by (simp add: ceilDays_pos)
  have pr: "totalPrice b =
           (let n = toNumber (totalDays b);
                base = js_times (Booking.pricePerDay b) n;
                withInsurance = (if insuranceSelected b then js_plus base (js_times (Num 15) n)
                                 else base)
            in if additionalDriver b then js_plus withInsurance (js_times (Num 10) n)
               else withInsurance)"
    unfolding doc using pre_save_totalPrice [of doc] by simp
  have exact: "Booking.pricePerDay b = Num (of_int r) \<and> 0 \<le> r \<and> (r + 25) * totalDays b < 2 ^ 53
            \<longrightarrow> totalPrice b = Num (of_int (r * totalDays b
                                   + (if insuranceSelected b then 15 * totalDays b else 0)
                                   + (if additionalDriver b then 10 * totalDays b else 0)))"
  proof
    assume h: "Booking.pricePerDay b = Num (of_int r) \<and> 0 \<le> r
                 \<and> (r + 25) * totalDays b < 2 ^ 53"
    then have r0: "0 \<le> r" and bd: "(r + 25) * totalDays b < 2 ^ 53" by simp_all
    from pr h price_exact [OF r0 d2 bd, of "insuranceSelected b" "additionalDriver b"]
    show "totalPrice b = Num (of_int (r * totalDays b
                                   + (if insuranceSelected b then 15 * totalDays b else 0)
                                   + (if additionalDriver b then 10 * totalDays b else 0)))"
      by simp
  qed
  from mem rate d1 d2 pr exact show ?thesis by blast
qed

text \<open>
  Scenario D: 50 per day, days 1 to 4, insurance selected: three days, 195. And the
  same days at the rate 10.1 without add-ons: the stored price is the rounded product.
\<close>

theorem created_days_and_price_witness:
  "createBooking (exStore 1 True []) alice (exRequest 1 4 (Some True))
     = (Inr exInsured3, exStore 0 False [exInsured3])
   \<and> totalDays exInsured3 = \<lceil>real_of_int (4 * 86400000 - 1 * 86400000) / 86400000\<rceil>
   \<and> totalDays exInsured3 = 3
   \<and> totalPrice exInsured3 = Num (of_int (50 * 3 + 15 * 3 + 0))
   \<and> totalPrice exInsured3 = Num 195
   \<and> fst (createBooking (exFractionalStore []) alice (exRequest 1 4 (Some False)))
       = Inr exFractional
   \<and> totalPrice exFractional = js_times (Num tenPointOne) (toNumber 3)
   \<and> totalPrice exFractional = Num (2132172948583219 / 70368744177664)"
proof -
  have run: "createBooking (exStore 1 True []) alice (exRequest 1 4 (Some True))
               = (Inr exInsured3, exStore 0 False [exInsured3])"
    by (simp add: ex_defs run_defs)
  have win: "pickupDate exInsured3 < dropoffDate exInsured3"
    by (simp add: ex_defs)
  have whole: "Booking.pricePerDay exInsured3 = Num (of_int 50) \<and> (0::int) \<le> 50
                 \<and> (50 + 25) * totalDays exInsured3 < 2 ^ 53"
    by (simp add: ex_defs)
  have run2: "createBooking (exFractionalStore []) alice (exRequest 1 4 (Some False))
               = (Inr exFractional,
                  (exFractionalStore [exFractional])
                    \<lparr>cars := [1 \<mapsto> \<lparr>Car.pricePerDay = Num tenPointOne, totalCarsAvailable = 0,
                                        isAvailable = False\<rparr>]\<rparr>)"
    by (simp add: ex_defs exFractionalStore_def exFractional_def run_defs
                  roundDouble_tenPointOne_times_3)
  have win2: "pickupDate exFractional < dropoffDate exFractional"
    by (simp add: exFractional_def ex_defs)
  from created_days_and_price [OF run win, of 50] whole run
       created_days_and_price [OF run2 win2, of 0] run2
  show ?thesis
    by (simp add: ex_defs exFractional_def toNumber_def roundDouble_tenPointOne_times_3)
qed

text \<open>
  C10: for every create request that omits \<open>insuranceSelected\<close>, the persisted reservation
  has \<open>insuranceSelected\<close> stored as true and its final \<open>totalPrice\<close> includes the 15 per day
  insurance surcharge: the save hook recomputes the price from the stored flags and so
  replaces the controller's own price, which counted the omitted flag as false and has
  no insurance term. The sums are those of JavaScript Numbers; for a whole-number rate
  \<open>r\<close> with \<open>(r + 25) * totalDays\<close> below \<open>2 ^ 53\<close> the final price is exactly the
  controller's price plus \<open>15 * totalDays\<close>.
\<close>

theorem omitted_insurance_is_charged:
  assumes "createBooking st usr body = (Inr b, st')"
    and "body_insuranceSelected body = None"
  shows "b \<in> set (bookings st') \<and> insuranceSelected b
       \<and> totalPrice b =
           (let n = toNumber (totalDays b);
                withInsurance = js_plus (js_times (Booking.pricePerDay b) n)
                                        (js_times (Num 15) n)
            in if additionalDriver b then js_plus withInsurance (js_times (Num 10) n)
               else withInsurance)
       \<and> controllerPrice (Booking.pricePerDay b) (totalDays b)
             (body_insuranceSelected body) (body_additionalDriver body) =
           (let n = toNumber (totalDays b);
                withoutInsurance = js_times (Booking.pricePerDay b) n
            in if additionalDriver b then js_plus withoutInsurance (js_times (Num 10) n)
               else withoutInsurance)
       \<and> (Booking.pricePerDay b = Num (of_int r) \<and> 0 \<le> r \<and> (r + 25) * totalDays b < 2 ^ 53
            \<longrightarrow> (\<exists>c. controllerPrice (Booking.pricePerDay b) (totalDays b)
                        (body_insuranceSelected body) (body_additionalDriver body)
                      = Num (of_int c)
                    \<and> totalPrice b = Num (of_int (c + 15 * totalDays b))))"
proof -
  from createBooking_Inr [OF assms(1)] obtain cid p d c where
    win: "p < d"
    and b: "b = pre_save ((bookingDoc usr body cid p d c (ceilDays (d - p)))
                        \<lparr>bookingId := newId (bookings st)\<rparr>)"
    and st': "st' = st\<lparr>bookings := bookings st @ [b],
                       cars := (cars st)(cid \<mapsto> reserveOnCreate c)\<rparr>"
    by blast
  have mem: "b \<in> set (bookings st')" using st' by simp
  have ins: "insuranceSelected b" using b assms(2) by (simp add: bookingDoc_def)
  have drv: "additionalDriver b = truthy (body_additionalDriver body)"
    using b by (simp add: bookingDoc_def)
  have d2: "1 \<le> totalDays b"
    using b win by (simp add: pre_save_totalDays bookingDoc_def ceilDays_pos)
  obtain doc where doc: "b = pre_save doc" using b by blast
  have pr: "totalPrice b =
           (let n = toNumber (totalDays b);
                base = js_times (Booking.pricePerDay b) n;
                withInsurance = (if insuranceSelected b then js_plus base (js_times (Num 15) n)
                                 else base)
            in if additionalDriver b then js_plus withInsurance (js_times (Num 10) n)
               else withInsurance)"
    unfolding doc using pre_save_totalPrice [of doc] by simp
  have p1: "totalPrice b =
           (let n = toNumber (totalDays b);
                withInsurance = js_plus (js_times (Booking.pricePerDay b) n)
                                        (js_times (Num 15) n)
            in if additionalDriver b then js_plus withInsurance (js_times (Num 10) n)
               else withInsurance)"
    using pr ins by (simp add: Let_def)
  have p2: "controllerPrice (Booking.pricePerDay b) (totalDays b)
             (body_insuranceSelected body) (body_additionalDriver body) =
           (let n = toNumber (totalDays b);
                withoutInsurance = js_times (Booking.pricePerDay b) n
            in if additionalDriver b then js_plus withoutInsurance (js_times (Num 10) n)
               else withoutInsurance)"
    using drv assms(2) by (simp add: controllerPrice_def truthy_def Let_def)
  have p3: "Booking.pricePerDay b = Num (of_int r) \<and> 0 \<le> r \<and> (r + 25) * totalDays b < 2 ^ 53
            \<longrightarrow> (\<exists>c. controllerPrice (Booking.pricePerDay b) (totalDays b)
                        (body_insuranceSelected body) (body_additionalDriver body)
                      = Num (of_int c)
                    \<and> totalPrice b = Num (of_int (c + 15 * totalDays b)))"
  proof
    assume h: "Booking.pricePerDay b = Num (of_int r) \<and> 0 \<le> r
                 \<and> (r + 25) * totalDays b < 2 ^ 53"
    then have r0: "0 \<le> r" and bd: "(r + 25) * totalDays b < 2 ^ 53" by simp_all
    from pr ins h price_exact [OF r0 d2 bd, of True "additionalDriver b"]
    have t: "totalPrice b = Num (of_int (r * totalDays b + 15 * totalDays b
                                 + (if additionalDriver b then 10 * totalDays b else 0)))"
      by simp
    from p2 h price_exact [OF r0 d2 bd, of False "additionalDriver b"]
    have c: "controllerPrice (Booking.pricePerDay b) (totalDays b)
               (body_insuranceSelected body) (body_additionalDriver body)
             = Num (of_int (r * totalDays b
                            + (if additionalDriver b then 10 * totalDays b else 0)))"
      by (simp add: Let_def)
    have "r * totalDays b + 15 * totalDays b
              + (if additionalDriver b then 10 * totalDays b else 0)
          = (r * totalDays b + (if additionalDriver b then 10 * totalDays b else 0))
              + 15 * totalDays b"
      by simp
    with t c show "\<exists>c. controllerPrice (Booking.pricePerDay b) (totalDays b)
                        (body_insuranceSelected body) (body_additionalDriver body)
                      = Num (of_int c)
                    \<and> totalPrice b = Num (of_int (c + 15 * totalDays b))"
      by metis
  qed
  from mem ins p1 p2 p3 show ?thesis by blast
qed

text \<open>Days 1 to 3 at 50 per day with the flag omitted: stored with insurance, 130 instead of 100.\<close>

theorem omitted_insurance_is_charged_witness:
  "createBooking (exStore 1 True []) alice (exRequest 1 3 None)
     = (Inr exInsured2, exStore 0 False [exInsured2])
   \<and> insuranceSelected exInsured2
   \<and> controllerPrice (Num 50) 2 None None = Num 100
   \<and> totalPrice exInsured2 = Num (100 + 15 * 2)
   \<and> totalPrice exInsured2 = Num 130"
proof -
  have run: "createBooking (exStore 1 True []) alice (exRequest 1 3 None)
               = (Inr exInsured2, exStore 0 False [exInsured2])"
    by (simp add: ex_defs run_defs)
  have omitted: "body_insuranceSelected (exRequest 1 3 None) = None"
    by (simp add: exRequest_def)
  have whole: "Booking.pricePerDay exInsured2 = Num (of_int 50) \<and> (0::int) \<le> 50
                 \<and> (50 + 25) * totalDays exInsured2 < 2 ^ 53"
    by (simp add: ex_defs)
  from omitted_insurance_is_charged [OF run omitted, of 50] whole run
  show ?thesis by (simp add: ex_defs controllerPrice_def truthy_def toNumber_def)
qed

section \<open>Cancellation and status changes\<close>

text \<open>
  C5 (as stated in the specification): cancel checks NotFound, then Forbidden, then
  ReasonRequired, so an actor who is neither the requester nor privileged and gives no
  reason gets Forbidden. The controller tests the reason before the actor: user 8,
  cancelling user 7's booking without a reason, is answered ReasonRequired.
\<close>

theorem cancel_reason_tested_before_actor:
  "user (exBooking confirmed None) \<noteq> actor_id bob \<and> actor_role bob \<noteq> admin_role
   \<and> cancelBooking (exStore 0 False [exBooking confirmed None]) bob 1 None
       = (Inl ReasonRequired, exStore 0 False [exBooking confirmed None])
   \<and> fst (cancelBooking (exStore 0 False [exBooking confirmed None]) bob 1 None) \<noteq> Inl Forbidden"
  by (simp add: ex_defs run_defs)

text \<open>
  C5 (amended): the cancel operation checks its failure conditions in the order:
  reservation absent (NotFound), then empty reason (ReasonRequired), then actor not the
  original requester and not privileged (Forbidden), then already cancelled, then
  completed; so a cancel request by an actor who is neither the requester nor privileged
  and who supplies an empty reason is answered ReasonRequired. (The checks after the
  reason read the requester's user document, which must still exist.) Every one of
  these failures leaves the database as it was.
\<close>

theorem cancel_check_order:
  "(findById st i = None \<longrightarrow> cancelBooking st usr i reason = (Inl NotFound, st))
   \<and> (findById st i = Some b \<and> falsy reason
        \<longrightarrow> cancelBooking st usr i reason = (Inl ReasonRequired, st))
   \<and> (findById st i = Some b \<and> \<not> falsy reason \<and> user b \<in> users st
        \<and> user b \<noteq> actor_id usr \<and> actor_role usr \<noteq> admin_role
        \<longrightarrow> cancelBooking st usr i reason = (Inl Forbidden, st))
   \<and> (findById st i = Some b \<and> \<not> falsy reason \<and> user b \<in> users st
        \<and> (user b = actor_id usr \<or> actor_role usr = admin_role)
        \<and> bookingStatus b = cancelled
        \<longrightarrow> cancelBooking st usr i reason = (Inl AlreadyCancelled, st))
   \<and> (findById st i = Some b \<and> \<not> falsy reason \<and> user b \<in> users st
        \<and> (user b = actor_id usr \<or> actor_role usr = admin_role)
        \<and> bookingStatus b = completed
        \<longrightarrow> cancelBooking st usr i reason = (Inl TerminalCompleted, st))"
  by (auto simp: cancelBooking_def)

text \<open>One request for each of the five failures, in the order of the checks.\<close>

theorem cancel_check_order_witness:
  "cancelBooking (exStore 0 False [exBooking confirmed None]) bob 5 None
     = (Inl NotFound, exStore 0 False [exBooking confirmed None])
   \<and> cancelBooking (exStore 0 False [exBooking confirmed None]) bob 1 (Some [])
     = (Inl ReasonRequired, exStore 0 False [exBooking confirmed None])
   \<and> cancelBooking (exStore 0 False [exBooking confirmed None]) bob 1 (Some ''mine now'')
     = (Inl Forbidden, exStore 0 False [exBooking confirmed None])
   \<and> cancelBooking (exStore 1 True [exBooking cancelled None]) alice 1 (Some ''again'')
     = (Inl AlreadyCancelled, exStore 1 True [exBooking cancelled None])
   \<and> cancelBooking (exStore 0 False [exBooking completed None]) admin 1 (Some ''refund'')
     = (Inl TerminalCompleted, exStore 0 False [exBooking completed None])"
proof -
  note a = cancel_check_order [of "exStore 0 False [exBooking confirmed None]" 5 bob None]
  note b = cancel_check_order [of "exStore 0 False [exBooking confirmed None]" 1 bob "Some []"
      "exBooking confirmed None"]
  note c = cancel_check_order [of "exStore 0 False [exBooking confirmed None]" 1 bob
      "Some ''mine now''" "exBooking confirmed None"]
  note d = cancel_check_order [of "exStore 1 True [exBooking cancelled None]" 1 alice
      "Some ''again''" "exBooking cancelled None"]
  note e = cancel_check_order [of "exStore 0 False [exBooking completed None]" 1 admin
      "Some ''refund''" "exBooking completed None"]
  from a b c d e show ?thesis by (simp add: ex_defs findById_def falsy_def)
qed

text \<open>
  C2 (as stated in the specification): once a reservation is completed, every cancel or
  setStatus leaves it completed and changes no counter. The admin status change is not
  restricted by the old status: booking 1, created on the single unit of car 1 and then
  set to completed, is set to cancelled by the next request, and the counter goes from
  0 to 1; a request for pending reopens it as well.
\<close>

theorem completed_reopened_by_status_change:
  "createBooking (exStore 1 True []) alice (exRequest 1 3 (Some False))
     = (Inr (exBooking confirmed None), exStore 0 False [exBooking confirmed None])
   \<and> updateBooking (exStore 0 False [exBooking confirmed None]) admin 1 (exSetStatus ''completed'')
     = (Inr (exBooking completed None), exStore 0 False [exBooking completed None])
   \<and> updateBooking (exStore 0 False [exBooking completed None]) admin 1 (exSetStatus ''cancelled'')
     = (Inr (exBooking cancelled (Some ''Cancelled by admin'')),
        exStore 1 True [exBooking cancelled (Some ''Cancelled by admin'')])
   \<and> updateBooking (exStore 0 False [exBooking completed None]) admin 1 (exSetStatus ''pending'')
     = (Inr (exBooking pending None), exStore 0 False [exBooking pending None])"
  by (simp add: ex_defs run_defs)

text \<open>
  C2 (amended): for every reservation whose status is completed, cancel (any actor, any
  reason) fails and changes nothing; setStatus (any actor) is not blocked: it sets the
  status to the requested valid target, so the status stays completed only when the
  target is completed. It changes no counter for the targets pending, confirmed and
  completed, and for the target cancelled it increases the counter of the reservation's
  car by 1.
\<close>

theorem completed_blocks_cancel_only:
  assumes "findById st i = Some b" and "bookingStatus b = completed"
  shows "isl (fst (cancelBooking st usr i reason)) \<and> snd (cancelBooking st usr i reason) = st
       \<and> (body_status body = Some s \<and> validStatus s = Some t \<longrightarrow>
            map_option bookingStatus (findById (snd (updateBooking st usr2 i body)) i) = Some t
          \<and> (t \<noteq> cancelled \<longrightarrow> cars (snd (updateBooking st usr2 i body)) = cars st)
          \<and> (t = cancelled \<and> cars st (car b) = Some c \<longrightarrow>
               map_option totalCarsAvailable (cars (snd (updateBooking st usr2 i body)) (car b))
                 = Some (totalCarsAvailable c + 1)))"
proof (intro conjI impI)
  show "isl (fst (cancelBooking st usr i reason))" "snd (cancelBooking st usr i reason) = st"
    using assms by (simp_all add: cancelBooking_def)
next
  assume h: "body_status body = Some s \<and> validStatus s = Some t"
  show "map_option bookingStatus (findById (snd (updateBooking st usr2 i body)) i) = Some t"
  proof (cases "t = cancelled")
    case True
    then have s: "body_status body = Some ''cancelled''"
      using h by (auto simp: validStatus_def split: if_splits)
    have nc: "bookingStatus b \<noteq> cancelled" using assms(2) by simp
    from updateBooking_to_cancelled_effect(2) [OF assms(1) s nc] True show ?thesis by simp
  next
    case False
    have nr: "\<not> (t = confirmed \<and> bookingStatus b = cancelled)" using assms(2) by simp
    from h False updateBooking_no_inventory_effect(2) [OF assms(1) _ _ _ nr, of body s usr2]
    show ?thesis by simp
  qed
next
  assume h: "body_status body = Some s \<and> validStatus s = Some t" and nc: "t \<noteq> cancelled"
  have nr: "\<not> (t = confirmed \<and> bookingStatus b = cancelled)" using assms(2) by simp
  from h nc updateBooking_no_inventory_effect(3) [OF assms(1) _ _ _ nr, of body s usr2]
  show "cars (snd (updateBooking st usr2 i body)) = cars st" by simp
next
  assume h: "body_status body = Some s \<and> validStatus s = Some t"
    and c: "t = cancelled \<and> cars st (car b) = Some c"
  have s: "body_status body = Some ''cancelled''"
    using h c by (auto simp: validStatus_def split: if_splits)
  have nc: "bookingStatus b \<noteq> cancelled" using assms(2) by simp
  from updateBooking_to_cancelled_effect(3) [OF assms(1) s nc, of usr2] c
  show "map_option totalCarsAvailable (cars (snd (updateBooking st usr2 i body)) (car b))
                 = Some (totalCarsAvailable c + 1)"
    by (simp add: releaseUnit_fields)
qed

theorem completed_blocks_cancel_only_witness:
  "cancelBooking (exStore 0 False [exBooking completed None]) alice 1 (Some ''change of plans'')
     = (Inl TerminalCompleted, exStore 0 False [exBooking completed None])
   \<and> map_option bookingStatus
        (findById (snd (updateBooking (exStore 0 False [exBooking completed None]) admin 1
                         (exSetStatus ''completed''))) 1) = Some completed
   \<and> cars (snd (updateBooking (exStore 0 False [exBooking completed None]) admin 1
                         (exSetStatus ''completed''))) = cars (exStore 0 False [exBooking completed None])
   \<and> map_option bookingStatus
        (findById (snd (updateBooking (exStore 0 False [exBooking completed None]) admin 1
                         (exSetStatus ''cancelled''))) 1) = Some cancelled
   \<and> map_option totalCarsAvailable
        (cars (snd (updateBooking (exStore 0 False [exBooking completed None]) admin 1
                         (exSetStatus ''cancelled''))) 1) = Some 1"
proof -
  have f: "findById (exStore 0 False [exBooking completed None]) 1 = Some (exBooking completed None)"
    and st: "bookingStatus (exBooking completed None) = completed"
    by (simp_all add: findById_def exStore_def exBooking_def)
  note keep = completed_blocks_cancel_only [OF f st, of alice "Some ''change of plans''"
      "exSetStatus ''completed''" "''completed''" completed admin "exCar 0 False"]
  note reopen = completed_blocks_cancel_only [OF f st, of alice "Some ''change of plans''"
      "exSetStatus ''cancelled''" "''cancelled''" cancelled admin "exCar 0 False"]
  have run: "cancelBooking (exStore 0 False [exBooking completed None]) alice 1 (Some ''change of plans'')
     = (Inl TerminalCompleted, exStore 0 False [exBooking completed None])"
    by (simp add: ex_defs run_defs)
  from keep reopen run show ?thesis
    by (simp add: ex_defs validStatus_def)
qed

text \<open>
  C6: for every setStatus request moving a reservation from cancelled to confirmed (the
  reservation's car being in the catalog): if the car's counter is 0 or less the operation
  fails with FullyBooked and nothing is written, so the reservation stays cancelled;
  otherwise the counter decreases by exactly 1, \<open>isAvailable\<close> is set to false when the
  counter reaches 0 and is left alone otherwise, and the status becomes confirmed. The
  bookings of other users play no part: no overlap check is made on this path.
\<close>

theorem reconfirm_checks_counter_only:
  assumes "findById st i = Some b" and "bookingStatus b = cancelled"
    and "cars st (car b) = Some c" and "body_status body = Some ''confirmed''"
  shows "(totalCarsAvailable c \<le> 0 \<longrightarrow> updateBooking st usr i body = (Inl FullyBooked, st))
       \<and> (0 < totalCarsAvailable c \<longrightarrow>
            \<not> isl (fst (updateBooking st usr i body))
          \<and> map_option bookingStatus (findById (snd (updateBooking st usr i body)) i)
              = Some confirmed
          \<and> cars (snd (updateBooking st usr i body))
              = (cars st)(car b \<mapsto> c\<lparr>totalCarsAvailable := totalCarsAvailable c - 1,
                                      isAvailable := (if totalCarsAvailable c - 1 = 0 then False
                                                      else isAvailable c)\<rparr>))"
proof (intro conjI impI)
  assume "totalCarsAvailable c \<le> 0"
  then show "updateBooking st usr i body = (Inl FullyBooked, st)"
    by (rule updateBooking_reconfirm_full [OF assms(1,4,2,3)])
next
  assume pos: "0 < totalCarsAvailable c"
  then have av: "cars st (car b) = None \<or> (\<exists>c. cars st (car b) = Some c \<and> 0 < totalCarsAvailable c)"
    using assms(3) by simp
  note eff = updateBooking_reconfirm_effect [OF assms(1,4,2) av, of usr]
  show "\<not> isl (fst (updateBooking st usr i body))" by (rule eff(1))
  show "map_option bookingStatus (findById (snd (updateBooking st usr i body)) i) = Some confirmed"
    by (rule eff(2))
  have "reserveUnit c = c\<lparr>totalCarsAvailable := totalCarsAvailable c - 1,
                           isAvailable := (if totalCarsAvailable c - 1 = 0 then False
                                           else isAvailable c)\<rparr>"
    by (simp add: reserveUnit_def Let_def)
  with eff(3) assms(3)
  show "cars (snd (updateBooking st usr i body))
              = (cars st)(car b \<mapsto> c\<lparr>totalCarsAvailable := totalCarsAvailable c - 1,
                                      isAvailable := (if totalCarsAvailable c - 1 = 0 then False
                                                      else isAvailable c)\<rparr>)"
    by simp
qed

text \<open>
  Scenario C: re-confirming booking 1 at counter 0 fails with FullyBooked. At counter 1 it
  succeeds although booking 2, confirmed for days 2 to 4, overlaps days 1 to 3: afterwards
  both are confirmed on the one car.
\<close>

theorem reconfirm_checks_counter_only_witness:
  "updateBooking (exStore 0 False [exBooking cancelled None, exBooking2]) admin 1
       (exSetStatus ''confirmed'')
     = (Inl FullyBooked, exStore 0 False [exBooking cancelled None, exBooking2])
   \<and> blocks 1 (pickupDate (exBooking cancelled None)) (dropoffDate (exBooking cancelled None))
        exBooking2
   \<and> updateBooking (exStore 1 True [exBooking cancelled None, exBooking2]) admin 1
       (exSetStatus ''confirmed'')
     = (Inr (exBooking confirmed None), exStore 0 False [exBooking confirmed None, exBooking2])"
proof -
  have f: "\<And>n k. findById (exStore n k [exBooking cancelled None, exBooking2]) 1
             = Some (exBooking cancelled None)"
    and s: "bookingStatus (exBooking cancelled None) = cancelled"
    and c: "\<And>n k bs. cars (exStore n k bs) (car (exBooking cancelled None)) = Some (exCar n k)"
    and t: "body_status (exSetStatus ''confirmed'') = Some ''confirmed''"
    by (simp_all add: findById_def ex_defs)
  note full = reconfirm_checks_counter_only [OF f s c t, of 0 False admin]
  note free = reconfirm_checks_counter_only [OF f s c t, of 1 True admin]
  have run: "updateBooking (exStore 1 True [exBooking cancelled None, exBooking2]) admin 1
       (exSetStatus ''confirmed'')
     = (Inr (exBooking confirmed None), exStore 0 False [exBooking confirmed None, exBooking2])"
    by (simp add: ex_defs run_defs)
  have ov: "blocks 1 (pickupDate (exBooking cancelled None))
              (dropoffDate (exBooking cancelled None)) exBooking2"
    by (simp add: ex_defs blocks_def)
  from full free run ov show ?thesis by (simp add: exCar_def)
qed

text \<open>
  C9: for every setStatus request moving a reservation from cancelled to confirmed whose
  car is no longer in the catalog, the operation does not fail: the status is set to
  confirmed, with no capacity check and no change to any car.
\<close>

theorem reconfirm_with_missing_car:
  assumes "findById st i = Some b" and "bookingStatus b = cancelled"
    and "cars st (car b) = None" and "body_status body = Some ''confirmed''"
  shows "(\<exists>b'. fst (updateBooking st usr i body) = Inr b' \<and> bookingStatus b' = confirmed)
       \<and> map_option bookingStatus (findById (snd (updateBooking st usr i body)) i) = Some confirmed
       \<and> cars (snd (updateBooking st usr i body)) = cars st"
proof -
  have av: "cars st (car b) = None \<or> (\<exists>c. cars st (car b) = Some c \<and> 0 < totalCarsAvailable c)"
    using assms(3) by simp
  note eff = updateBooking_reconfirm_effect [OF assms(1,4,2) av, of usr]
  have r: "updateBooking st usr i body =
             (Inr (pre_save (b\<lparr>bookingStatus := confirmed\<rparr>)),
              Booking_save st (b\<lparr>bookingStatus := confirmed\<rparr>))"
    using updateBooking_reconfirm [OF assms(1,4,2), of usr] assms(3) by simp
  have "\<exists>b'. fst (updateBooking st usr i body) = Inr b' \<and> bookingStatus b' = confirmed"
    using r by simp
  moreover have "cars (snd (updateBooking st usr i body)) = cars st"
    using eff(3) assms(3) by simp
  ultimately show ?thesis using eff(2) by blast
qed

theorem reconfirm_with_missing_car_witness:
  "updateBooking \<lparr>cars = Map.empty, users = {7}, bookings = [exBooking cancelled None]\<rparr> admin 1
       (exSetStatus ''confirmed'')
     = (Inr (exBooking confirmed None),
        \<lparr>cars = Map.empty, users = {7}, bookings = [exBooking confirmed None]\<rparr>)
   \<and> map_option bookingStatus (findById (snd (updateBooking
        \<lparr>cars = Map.empty, users = {7}, bookings = [exBooking cancelled None]\<rparr> admin 1
        (exSetStatus ''confirmed''))) 1) = Some confirmed"
proof -
  have f: "findById \<lparr>cars = Map.empty, users = {7}, bookings = [exBooking cancelled None]\<rparr> 1
             = Some (exBooking cancelled None)"
    and s: "bookingStatus (exBooking cancelled None) = cancelled"
    and c: "cars \<lparr>cars = Map.empty, users = {7}, bookings = [exBooking cancelled None]\<rparr>
              (car (exBooking cancelled None)) = None"
    and t: "body_status (exSetStatus ''confirmed'') = Some ''confirmed''"
    by (simp_all add: findById_def ex_defs)
  have run: "updateBooking \<lparr>cars = Map.empty, users = {7}, bookings = [exBooking cancelled None]\<rparr>
       admin 1 (exSetStatus ''confirmed'')
     = (Inr (exBooking confirmed None),
        \<lparr>cars = Map.empty, users = {7}, bookings = [exBooking confirmed None]\<rparr>)"
    by (simp add: ex_defs run_defs)
  from reconfirm_with_missing_car [OF f s c t, of admin] run show ?thesis by simp
qed

section \<open>Inventory\<close>

text \<open>
  C7: the predicate \<open>isAvailable = (totalCarsAvailable > 0)\<close> on a car is preserved by every
  operation of the controller that writes the car: create (decrement), cancel (increment),
  setStatus to cancelled (increment) and setStatus from cancelled to confirmed
  (decrement). A car that satisfies the predicate before a request is still in the
  catalog and satisfies it after the request, whatever the request and its outcome.
\<close>

theorem availability_flag_preserved:
  assumes "cars st cid = Some c" and "car_consistent c"
  shows "map_option car_consistent (cars (snd (createBooking st usr body)) cid) = Some True
       \<and> map_option car_consistent (cars (snd (cancelBooking st usr i reason)) cid) = Some True
       \<and> map_option car_consistent (cars (snd (updateBooking st usr i ubody)) cid) = Some True"
proof (intro conjI)
  show "map_option car_consistent (cars (snd (createBooking st usr body)) cid) = Some True"
    using assms
    by (auto simp: createBooking_def Booking_create_def Let_def reserveOnCreate_consistent
             split: option.splits sum.splits prod.splits)
  show "map_option car_consistent (cars (snd (cancelBooking st usr i reason)) cid) = Some True"
    using assms
    by (auto simp: cancelBooking_def Let_def releaseUnit_consistent split: option.splits)
  show "map_option car_consistent (cars (snd (updateBooking st usr i ubody)) cid) = Some True"
    using assms
    by (auto simp: updateBooking_def Let_def releaseUnit_consistent reserveUnit_consistent
             split: option.splits)
qed

text \<open>
  The four writes on car 1: create takes the last unit (1, true to 0, false), cancel and
  setStatus to cancelled give it back (0, false to 1, true), re-confirming takes it again.
\<close>

theorem availability_flag_preserved_witness:
  "cars (snd (createBooking (exStore 1 True []) alice (exRequest 1 3 None))) 1
     = Some (exCar 0 False)
   \<and> cars (snd (cancelBooking (exStore 0 False [exBooking confirmed None]) alice 1
                  (Some ''change of plans''))) 1 = Some (exCar 1 True)
   \<and> cars (snd (updateBooking (exStore 0 False [exBooking confirmed None]) admin 1
                  (exSetStatus ''cancelled''))) 1 = Some (exCar 1 True)
   \<and> cars (snd (updateBooking (exStore 1 True [exBooking cancelled None]) admin 1
                  (exSetStatus ''confirmed''))) 1 = Some (exCar 0 False)
   \<and> car_consistent (exCar 0 False) \<and> car_consistent (exCar 1 True)"
proof -
  have c: "cars (exStore 1 True []) 1 = Some (exCar 1 True)"
    "cars (exStore 0 False [exBooking confirmed None]) 1 = Some (exCar 0 False)"
    "cars (exStore 1 True [exBooking cancelled None]) 1 = Some (exCar 1 True)"
    by (simp_all add: exStore_def)
  have ok: "car_consistent (exCar 1 True)" "car_consistent (exCar 0 False)"
    by (simp_all add: car_consistent_def exCar_def)
  note a = availability_flag_preserved [OF c(1) ok(1),
      where usr = alice and body = "exRequest 1 3 None"]
  note b = availability_flag_preserved [OF c(2) ok(2),
      where usr = alice and i = 1 and reason = "Some ''change of plans''"]
  note d = availability_flag_preserved [OF c(2) ok(2),
      where usr = admin and i = 1 and ubody = "exSetStatus ''cancelled''"]
  note e = availability_flag_preserved [OF c(3) ok(1),
      where usr = admin and i = 1 and ubody = "exSetStatus ''confirmed''"]
  have run: "cars (snd (createBooking (exStore 1 True []) alice (exRequest 1 3 None))) 1
     = Some (exCar 0 False)"
    "cars (snd (cancelBooking (exStore 0 False [exBooking confirmed None]) alice 1
                  (Some ''change of plans''))) 1 = Some (exCar 1 True)"
    "cars (snd (updateBooking (exStore 0 False [exBooking confirmed None]) admin 1
                  (exSetStatus ''cancelled''))) 1 = Some (exCar 1 True)"
    "cars (snd (updateBooking (exStore 1 True [exBooking cancelled None]) admin 1
                  (exSetStatus ''confirmed''))) 1 = Some (exCar 0 False)"
    by (simp_all add: ex_defs run_defs)
  from a b d e run ok show ?thesis by simp
qed

text \<open>
  C8 (as stated in the specification): on a transition from confirmed to cancelled the
  counter increases by exactly 1 and never exceeds the car's total of units. The car has
  no field for its total and the increment has no cap: on a car with a single unit and no
  bookings, booking 1 is created (counter 0), cancelled (1), set to pending and to
  confirmed again by the admin (neither changes the counter: only cancelled to confirmed
  decrements), and cancelled once more: that last transition from confirmed to cancelled
  raises the counter to 2 for a car that has one unit.
\<close>

theorem release_exceeds_the_units_of_the_car:
  "createBooking (exStore 1 True []) alice (exRequest 1 3 (Some False))
     = (Inr (exBooking confirmed None), exStore 0 False [exBooking confirmed None])
   \<and> cancelBooking (exStore 0 False [exBooking confirmed None]) alice 1 (Some ''change of plans'')
     = (Inr (exBooking cancelled (Some ''change of plans'')),
        exStore 1 True [exBooking cancelled (Some ''change of plans'')])
   \<and> updateBooking (exStore 1 True [exBooking cancelled (Some ''change of plans'')]) admin 1
        (exSetStatus ''pending'')
     = (Inr (exBooking pending (Some ''change of plans'')),
        exStore 1 True [exBooking pending (Some ''change of plans'')])
   \<and> updateBooking (exStore 1 True [exBooking pending (Some ''change of plans'')]) admin 1
        (exSetStatus ''confirmed'')
     = (Inr (exBooking confirmed (Some ''change of plans'')),
        exStore 1 True [exBooking confirmed (Some ''change of plans'')])
   \<and> cancelBooking (exStore 1 True [exBooking confirmed (Some ''change of plans'')]) alice 1
        (Some ''again'')
     = (Inr (exBooking cancelled (Some ''again'')),
        exStore 2 True [exBooking cancelled (Some ''again'')])
   \<and> totalCarsAvailable (exCar 2 True) = 2"
  by (simp add: ex_defs run_defs)

text \<open>
  C8 (amended): for every reservation going from confirmed to cancelled on a car that is
  in the catalog, by cancel (requester or admin, with a reason) or by setStatus, the
  car's counter increases by exactly 1; nothing caps the increment. For the reverse
  transition from cancelled to confirmed on such a car the counter decreases by exactly 1,
  or the operation fails with FullyBooked and changes nothing.
\<close>

theorem inventory_symmetry_without_cap:
  "(findById st i = Some b \<and> bookingStatus b = confirmed \<and> cars st (car b) = Some c
      \<and> \<not> falsy reason \<and> user b \<in> users st
      \<and> (user b = actor_id usr \<or> actor_role usr = admin_role)
      \<longrightarrow> map_option bookingStatus (findById (snd (cancelBooking st usr i reason)) i)
            = Some cancelled
        \<and> map_option totalCarsAvailable (cars (snd (cancelBooking st usr i reason)) (car b))
            = Some (totalCarsAvailable c + 1))
   \<and> (findById st i = Some b \<and> bookingStatus b = confirmed \<and> cars st (car b) = Some c
      \<and> body_status toCancelled = Some ''cancelled''
      \<longrightarrow> map_option bookingStatus (findById (snd (updateBooking st usr i toCancelled)) i)
            = Some cancelled
        \<and> map_option totalCarsAvailable (cars (snd (updateBooking st usr i toCancelled)) (car b))
            = Some (totalCarsAvailable c + 1))
   \<and> (findById st i = Some b \<and> bookingStatus b = cancelled \<and> cars st (car b) = Some c
      \<and> body_status toConfirmed = Some ''confirmed''
      \<longrightarrow> updateBooking st usr i toConfirmed = (Inl FullyBooked, st)
        \<or> (map_option bookingStatus (findById (snd (updateBooking st usr i toConfirmed)) i)
              = Some confirmed
           \<and> map_option totalCarsAvailable
                (cars (snd (updateBooking st usr i toConfirmed)) (car b))
              = Some (totalCarsAvailable c - 1)))"
proof (intro conjI impI)
  assume h: "findById st i = Some b \<and> bookingStatus b = confirmed \<and> cars st (car b) = Some c
      \<and> \<not> falsy reason \<and> user b \<in> users st
      \<and> (user b = actor_id usr \<or> actor_role usr = admin_role)"
  then have f: "findById st i = Some b" and r: "\<not> falsy reason" and u: "user b \<in> users st"
    and a: "user b = actor_id usr \<or> actor_role usr = admin_role"
    and n1: "bookingStatus b \<noteq> cancelled" and n2: "bookingStatus b \<noteq> completed"
    by simp_all
  note eff = cancelBooking_effect [OF f r u a n1 n2]
  show "map_option bookingStatus (findById (snd (cancelBooking st usr i reason)) i) = Some cancelled"
    by (rule eff(1))
  show "map_option totalCarsAvailable (cars (snd (cancelBooking st usr i reason)) (car b))
            = Some (totalCarsAvailable c + 1)"
    using eff(2) h by (simp add: releaseUnit_fields)
next
  assume h: "findById st i = Some b \<and> bookingStatus b = confirmed \<and> cars st (car b) = Some c
      \<and> body_status toCancelled = Some ''cancelled''"
  then have f: "findById st i = Some b" and s: "body_status toCancelled = Some ''cancelled''"
    and n1: "bookingStatus b \<noteq> cancelled"
    by simp_all
  note eff = updateBooking_to_cancelled_effect [OF f s n1, of usr]
  show "map_option bookingStatus (findById (snd (updateBooking st usr i toCancelled)) i)
            = Some cancelled"
    by (rule eff(2))
  show "map_option totalCarsAvailable (cars (snd (updateBooking st usr i toCancelled)) (car b))
            = Some (totalCarsAvailable c + 1)"
    using eff(3) h by (simp add: releaseUnit_fields)
next
  assume h: "findById st i = Some b \<and> bookingStatus b = cancelled \<and> cars st (car b) = Some c
      \<and> body_status toConfirmed = Some ''confirmed''"
  then have f: "findById st i = Some b" and s: "body_status toConfirmed = Some ''confirmed''"
    and st: "bookingStatus b = cancelled" and c: "cars st (car b) = Some c"
    by simp_all
  show "updateBooking st usr i toConfirmed = (Inl FullyBooked, st)
        \<or> (map_option bookingStatus (findById (snd (updateBooking st usr i toConfirmed)) i)
              = Some confirmed
           \<and> map_option totalCarsAvailable
                (cars (snd (updateBooking st usr i toConfirmed)) (car b))
              = Some (totalCarsAvailable c - 1))"
  proof (cases "totalCarsAvailable c \<le> 0")
    case True
    from updateBooking_reconfirm_full [OF f s st c True] show ?thesis by simp
  next
    case False
    then have av: "cars st (car b) = None
        \<or> (\<exists>c. cars st (car b) = Some c \<and> 0 < totalCarsAvailable c)"
      using c by simp
    note eff = updateBooking_reconfirm_effect [OF f s st av, of usr]
    from eff(2) eff(3) c show ?thesis by (simp add: reserveUnit_fields)
  qed
qed

theorem inventory_symmetry_without_cap_witness:
  "map_option totalCarsAvailable
      (cars (snd (cancelBooking (exStore 1 True [exBooking confirmed None]) alice 1
                    (Some ''again''))) 1) = Some (1 + 1)
   \<and> map_option totalCarsAvailable
      (cars (snd (updateBooking (exStore 1 True [exBooking confirmed None]) admin 1
                    (exSetStatus ''cancelled''))) 1) = Some (1 + 1)
   \<and> map_option totalCarsAvailable
      (cars (snd (updateBooking (exStore 1 True [exBooking cancelled None]) admin 1
                    (exSetStatus ''confirmed''))) 1) = Some (1 - 1)
   \<and> updateBooking (exStore 0 False [exBooking cancelled None]) admin 1 (exSetStatus ''confirmed'')
       = (Inl FullyBooked, exStore 0 False [exBooking cancelled None])"
proof -
  note a = inventory_symmetry_without_cap [where st = "exStore 1 True [exBooking confirmed None]"
      and i = 1 and b = "exBooking confirmed None" and c = "exCar 1 True"
      and reason = "Some ''again''" and usr = alice]
  note b = inventory_symmetry_without_cap [where st = "exStore 1 True [exBooking confirmed None]"
      and i = 1 and b = "exBooking confirmed None" and c = "exCar 1 True"
      and usr = admin and toCancelled = "exSetStatus ''cancelled''"]
  note c = inventory_symmetry_without_cap [where st = "exStore 1 True [exBooking cancelled None]"
      and i = 1 and b = "exBooking cancelled None" and c = "exCar 1 True"
      and usr = admin and toConfirmed = "exSetStatus ''confirmed''"]
  have full: "updateBooking (exStore 0 False [exBooking cancelled None]) admin 1
                (exSetStatus ''confirmed'')
       = (Inl FullyBooked, exStore 0 False [exBooking cancelled None])"
    by (simp add: ex_defs run_defs)
  have run: "updateBooking (exStore 1 True [exBooking cancelled None]) admin 1
                (exSetStatus ''confirmed'')
       \<noteq> (Inl FullyBooked, exStore 1 True [exBooking cancelled None])"
    by (simp add: ex_defs run_defs)
  from a b c full run show ?thesis
    by (simp add: ex_defs findById_def falsy_def)
qed

end
